theory Spec2Isabelle
  imports Complex_Main
begin

section \<open>Data model: the tables of the CELMS setup script\<close>

text \<open>
  The stored procedures of \<^verbatim>\<open>functions_and_seed.sql\<close> run against the tables that the
  database setup script (PostgreSQL 15+) creates.  A database state is a record of
  tables, each table a list of rows, each row a record of the columns that the lifecycle
  functions read or write.  Conventions of the embedding:
  \<^item> \<^verbatim>\<open>UUID\<close> values are natural numbers, \<^verbatim>\<open>BIGINT\<close> keys are integers;
  \<^item> a \<^verbatim>\<open>TIMESTAMPTZ\<close> is an integer number of microseconds, and \<^verbatim>\<open>now()\<close> (the start
    time of the transaction) is the argument \<open>now\<close> of every function;
  \<^item> a \<^verbatim>\<open>TSTZRANGE\<close> built with bounds \<^verbatim>\<open>'[)'\<close> is its pair of bounds;
  \<^item> \<^verbatim>\<open>NUMERIC\<close> is \<^typ>\<open>rat\<close>, with the rounding of a division or of a column type
    written out where it happens; a nullable column or argument is an \<^typ>\<open>'a option\<close>;
  \<^item> a \<^verbatim>\<open>TEXT\<close> column with a \<^verbatim>\<open>CHECK (... IN (...))\<close> list is a datatype of that list;
  \<^item> \<^verbatim>\<open>RAISE EXCEPTION\<close>, a violated constraint and an error of name resolution abort
    the transaction: the function returns \<open>Inl\<close> of the error and no state, so the
    database stays as it was.
  Columns that decide no branch of a lifecycle function (creation timestamps, asset tag,
  location, images, the serial keys of penalties, notifications and audit events) are
  left out, and the JSON payload of a notification or audit event is reduced to the key
  of the row it refers to.  The counters of the serial keys serve to draw fresh keys; a
  value drawn by an aborted transaction is not recorded.
\<close>

type_synonym uuid = nat
type_synonym timestamptz = int

datatype item_status = Available | Checked_out | Out_of_service | Retired

datatype reservation_status = Pending | Approved | Denied | Confirmed | Cancelled | Expired

datatype ticket_severity = Low | Medium | High | Critical

datatype ticket_status = Ticket_open | In_progress | On_hold | Closed

datatype notification_type =
  N_reservation | N_loan | N_return | N_penalty | N_maintenance | N_system

text \<open>
  The errors: the messages of \<^verbatim>\<open>RAISE EXCEPTION\<close>, the handler's missing-reason answer,
  the violations of table constraints by the name of the constraint, and the two errors
  of name resolution in PL/pgSQL, \<^verbatim>\<open>column reference "c" is ambiguous\<close> (SQLSTATE 42702)
  and \<^verbatim>\<open>record "r" is not assigned yet\<close> (SQLSTATE 55000).
\<close>

datatype error =
  Start_must_be_before_end
  | Reservation_not_found
  | Cannot_be_approved_from_status reservation_status
  | Overlap_with_existing_reservation
  | Only_owner_can_cancel
  | Cannot_cancel_after_start
  | Reservation_not_approved_confirmed
  | Item_is_currently_checked_out
  | Item_not_available
  | Loan_not_found
  | Loan_already_returned
  | Reason_is_required
  | Integer_out_of_range
  | Numeric_field_overflow
  | Check_violation string
  | Unique_violation string
  | Exclusion_violation string
  | Foreign_key_violation string
  | Ambiguous_column string
  | Record_not_assigned string

record equipment_item =
  i_item_id :: int
  i_status :: item_status

record reservation =
  r_reservation_id :: int
  r_item_id :: int
  r_user_id :: uuid
  r_lower :: timestamptz
  r_upper :: timestamptz
  r_status :: reservation_status
  r_decided_by :: "uuid option"
  r_decision_reason :: "string option"

record loan =
  l_loan_id :: int
  l_item_id :: int
  l_user_id :: uuid
  l_reservation_id :: "int option"
  l_checkout_at :: timestamptz
  l_due_at :: timestamptz
  l_return_at :: "timestamptz option"
  l_damaged :: bool
  l_return_condition :: "string option"

record penalty =
  p_loan_id :: int
  p_user_id :: uuid
  p_amount_mad :: rat
  p_reason :: string

record maintenance_ticket =
  t_ticket_id :: int
  t_item_id :: int
  t_loan_id :: "int option"
  t_opened_by :: uuid
  t_assigned_to :: "uuid option"
  t_severity :: ticket_severity
  t_status :: ticket_status
  t_description :: "string option"

record notification =
  n_user_id :: uuid
  n_type :: notification_type
  n_ref :: int

record audit_event =
  a_actor_user_id :: uuid
  a_entity :: string
  a_entity_id :: int
  a_action :: string

record db =
  users :: "uuid list"
  equipment_items :: "equipment_item list"
  reservations :: "reservation list"
  loans :: "loan list"
  penalties :: "penalty list"
  maintenance_tickets :: "maintenance_ticket list"
  notifications :: "notification list"
  audit_events :: "audit_event list"
  celms_settings :: "(string \<times> rat option) list"
  reservations_seq :: int
  loans_seq :: int
  tickets_seq :: int

text \<open>Sequencing of statements: the first error aborts the rest of the function.\<close>

definition bind_err :: "error + 'a \<Rightarrow> ('a \<Rightarrow> error + 'b) \<Rightarrow> error + 'b" where
  "bind_err m f = (case m of Inl e \<Rightarrow> Inl e | Inr x \<Rightarrow> f x)"

text \<open>
  The operator \<^verbatim>\<open>&&\<close> on two ranges \<^verbatim>\<open>[lo, hi)\<close>; an upper bound \<open>None\<close> is
  \<^verbatim>\<open>'infinity'\<close>.  An empty range overlaps nothing.
\<close>

definition below_upper :: "timestamptz \<Rightarrow> timestamptz option \<Rightarrow> bool" where
  "below_upper t hi = (case hi of None \<Rightarrow> True | Some h \<Rightarrow> t < h)"

definition range_overlaps ::
  "timestamptz \<Rightarrow> timestamptz option \<Rightarrow> timestamptz \<Rightarrow> timestamptz option \<Rightarrow> bool" where
  "range_overlaps lo1 hi1 lo2 hi2 =
     (below_upper lo1 hi1 \<and> below_upper lo2 hi2 \<and> below_upper lo1 hi2 \<and> below_upper lo2 hi1)"

text \<open>
  A scalar subquery on \<^verbatim>\<open>celms_settings\<close> (primary key \<^verbatim>\<open>key\<close>): \<open>None\<close> when the key is
  absent or its value is null.
\<close>

definition setting :: "db \<Rightarrow> string \<Rightarrow> rat option" where
  "setting s k = (case map_of (celms_settings s) k of None \<Rightarrow> None | Some v \<Rightarrow> v)"

section \<open>Names in the SQL statements of a function\<close>

text \<open>
  The parameters and variables of a PL/pgSQL function are in scope in its SQL statements.
  Nothing in the repository sets \<^verbatim>\<open>plpgsql.variable_conflict\<close>, so PostgreSQL's default
  (\<^verbatim>\<open>error\<close>) applies when a statement is analysed, the first time control reaches it:
  \<^item> a column reference that is also the name of a variable of the function is ambiguous
    and raises SQLSTATE 42702, before the statement reads or writes anything;
  \<^item> a reference \<^verbatim>\<open>q.column\<close> whose qualifier \<^verbatim>\<open>q\<close> is the name of a \<^verbatim>\<open>RECORD\<close> variable
    that has not been assigned yet raises SQLSTATE 55000, also when \<^verbatim>\<open>q\<close> is a table
    alias of the statement.
  Every parameter of the functions below starts with an underscore and no column does,
  so the test is written at the statements in which a declared variable bears the name
  of a column of the statement's table or of one of its table aliases.
\<close>

definition column_references :: "string list \<Rightarrow> string list \<Rightarrow> error + unit" where
  "column_references vars cols =
     (case find (\<lambda>c. c \<in> set vars) cols of
        None \<Rightarrow> Inr ()
      | Some c \<Rightarrow> Inl (Ambiguous_column c))"

definition qualified_references :: "string list \<Rightarrow> string list \<Rightarrow> error + unit" where
  "qualified_references unassigned qualifiers =
     (case find (\<lambda>q. q \<in> set unassigned) qualifiers of
        None \<Rightarrow> Inr ()
      | Some q \<Rightarrow> Inl (Record_not_assigned q))"

section \<open>Penalty computation\<close>

text \<open>
  \<^verbatim>\<open>EXTRACT(EPOCH FROM (_return_at - _due_at))\<close> is a \<^verbatim>\<open>NUMERIC\<close> with six decimals, the
  exact number of seconds between the two instants.
\<close>

definition usec_per_day :: int where
  "usec_per_day = 86400000000"

definition usec_per_hour :: int where
  "usec_per_hour = 3600000000"

definition epoch_from_interval :: "int \<Rightarrow> rat" where
  "epoch_from_interval usec = of_int usec / 1000000"

text \<open>
  The division of two \<^verbatim>\<open>NUMERIC\<close> values rounds the quotient to a scale that PostgreSQL's
  \<^verbatim>\<open>select_div_scale\<close> chooses from the operands: a \<^verbatim>\<open>NUMERIC\<close> is a string of digits of
  base 10000, the weight of a value is the exponent of its first non-zero digit, and
  the quotient gets \<^verbatim>\<open>16 - 4 * qweight\<close> decimals, where \<^verbatim>\<open>qweight\<close> is the difference of the
  weights, one less when the first digit of the dividend is not above the first digit of
  the divisor; the scale is no less than the display scale of either operand and lies
  between 0 and 1000.  The quotient is rounded half away from zero at that scale.

  The weight and the first digit are computed here for a positive value with at most
  eight decimals, from its integer number of units of \<open>10000\<^sup>-\<^sup>2\<close>.
\<close>

function nbase_weight :: "int \<Rightarrow> int" where
  "nbase_weight n = (if n < 10000 then 0 else nbase_weight (n div 10000) + 1)"
  by pat_completeness auto
termination by (relation "measure nat") auto

function nbase_first_digit :: "int \<Rightarrow> int" where
  "nbase_first_digit n = (if n < 10000 then n else nbase_first_digit (n div 10000))"
  by pat_completeness auto
termination by (relation "measure nat") auto

declare nbase_weight.simps [simp del] nbase_first_digit.simps [simp del]

definition numeric_weight :: "rat \<Rightarrow> int" where
  "numeric_weight x = nbase_weight \<lfloor>x * 100000000\<rfloor> - 2"

definition numeric_first_digit :: "rat \<Rightarrow> int" where
  "numeric_first_digit x = nbase_first_digit \<lfloor>x * 100000000\<rfloor>"

definition select_div_scale :: "int \<Rightarrow> int \<Rightarrow> int \<Rightarrow> int \<Rightarrow> int \<Rightarrow> int \<Rightarrow> nat" where
  "select_div_scale weight1 firstdigit1 dscale1 weight2 firstdigit2 dscale2 =
     (let qweight = (if firstdigit1 \<le> firstdigit2 then weight1 - weight2 - 1 else weight1 - weight2);
          rscale = 16 - qweight * 4
      in nat (min (max (max (max rscale dscale1) dscale2) 0) 1000))"

definition round_half_away :: "rat \<Rightarrow> int" where
  "round_half_away v = (if 0 \<le> v then \<lfloor>v + 1 / 2\<rfloor> else \<lceil>v - 1 / 2\<rceil>)"

definition numeric_div :: "rat \<Rightarrow> rat \<Rightarrow> nat \<Rightarrow> rat" where
  "numeric_div x y rscale = of_int (round_half_away (x / y * 10 ^ rscale)) / 10 ^ rscale"

text \<open>
  \<^verbatim>\<open>days_late := CEIL(EXTRACT(EPOCH FROM (_return_at - _due_at))/86400.0)\<close>.  The dividend
  has display scale 6; the divisor \<^verbatim>\<open>86400.0\<close> has the digits 8 and 6400 of base 10000,
  so weight 1 and first digit 8, and display scale 1.
\<close>

definition days_late :: "timestamptz \<Rightarrow> timestamptz \<Rightarrow> int" where
  "days_late due_at return_at =
     (let epoch = epoch_from_interval (return_at - due_at);
          rscale = select_div_scale (numeric_weight epoch) (numeric_first_digit epoch) 6 1 8 1
      in \<lceil>numeric_div epoch 86400 rscale\<rceil>)"

text \<open>
  \<^verbatim>\<open>fn_compute_penalty_amount(_due_at, _return_at)\<close>: the per-day rate is read from the
  settings table, and the result is 0 when the return is not after the due instant and
  \<^verbatim>\<open>GREATEST(0, days_late) * COALESCE(per_day, 10)\<close> otherwise.
\<close>

definition per_day_rate :: "db \<Rightarrow> rat" where
  "per_day_rate s = (case setting s ''penalty_per_day_mad'' of None \<Rightarrow> 10 | Some v \<Rightarrow> v)"

definition fn_compute_penalty_amount :: "db \<Rightarrow> timestamptz \<Rightarrow> timestamptz \<Rightarrow> rat" where
  "fn_compute_penalty_amount s due_at return_at =
     (if return_at \<le> due_at then 0
      else of_int (max 0 (days_late due_at return_at)) * per_day_rate s)"

section \<open>Statements shared by the stored procedures\<close>

text \<open>\<^verbatim>\<open>fn_audit\<close> inserts one row; the foreign key of the row to \<^verbatim>\<open>users\<close> is checked.\<close>

definition fn_audit :: "uuid \<Rightarrow> string \<Rightarrow> int \<Rightarrow> string \<Rightarrow> db \<Rightarrow> error + db" where
  "fn_audit actor ent eid act s =
     (if actor \<in> set (users s)
      then Inr (s\<lparr>audit_events := audit_events s @
             [\<lparr>a_actor_user_id = actor, a_entity = ent, a_entity_id = eid, a_action = act\<rparr>]\<rparr>)
      else Inl (Foreign_key_violation ''audit_events_actor_user_id_fkey''))"

text \<open>
  \<^verbatim>\<open>fn_create_notification(_user_id, _type, _payload)\<close> declares \<^verbatim>\<open>notif_id BIGINT\<close>; its
  only statement is
  \<^verbatim>\<open>INSERT INTO notifications(user_id, type, payload) VALUES (...) RETURNING notif_id INTO notif_id\<close>,
  in which \<^verbatim>\<open>notif_id\<close> is a column of the table and the variable.
\<close>

definition fn_create_notification :: "uuid \<Rightarrow> notification_type \<Rightarrow> int \<Rightarrow> db \<Rightarrow> error + db" where
  "fn_create_notification user_id ty ref s =
     bind_err (column_references [''_user_id'', ''_type'', ''_payload'', ''notif_id''] [''notif_id''])
       (\<lambda>_. if user_id \<in> set (users s)
             then Inr (s\<lparr>notifications := notifications s @
                    [\<lparr>n_user_id = user_id, n_type = ty, n_ref = ref\<rparr>]\<rparr>)
             else Inl (Foreign_key_violation ''notifications_user_id_fkey''))"

definition item_exists :: "db \<Rightarrow> int \<Rightarrow> bool" where
  "item_exists s i = (i \<in> set (map i_item_id (equipment_items s)))"

text \<open>\<^verbatim>\<open>SELECT * INTO r FROM reservations WHERE reservation_id = ...\<close>.\<close>

definition select_reservation :: "db \<Rightarrow> int \<Rightarrow> reservation option" where
  "select_reservation s rid = find (\<lambda>r. r_reservation_id r = rid) (reservations s)"

text \<open>
  \<^verbatim>\<open>SELECT res.*, i.asset_tag INTO r FROM reservations res JOIN equipment_items i ON res.item_id = i.item_id WHERE reservation_id = ...\<close>:
  the aliases \<^verbatim>\<open>res\<close> and \<^verbatim>\<open>i\<close> are no variables of the functions that run it.
\<close>

definition select_reservation_join_item :: "db \<Rightarrow> int \<Rightarrow> reservation option" where
  "select_reservation_join_item s rid =
     find (\<lambda>r. r_reservation_id r = rid \<and> item_exists s (r_item_id r)) (reservations s)"

text \<open>
  \<^verbatim>\<open>SELECT l.*, i.asset_tag INTO l FROM loans l JOIN equipment_items i ON l.item_id = i.item_id WHERE loan_id = _loan_id FOR UPDATE\<close>,
  the first statement of \<^verbatim>\<open>fn_return_loan\<close>, which declares \<^verbatim>\<open>l RECORD\<close>: the qualifier
  \<^verbatim>\<open>l\<close> of the join condition is the alias and the record variable, which nothing has
  assigned before this statement.
\<close>

definition select_loan_join_item :: "db \<Rightarrow> int \<Rightarrow> error + loan option" where
  "select_loan_join_item s lid =
     bind_err (qualified_references [''l''] [''l'', ''i''])
       (\<lambda>_. Inr (find (\<lambda>l. l_loan_id l = lid \<and> item_exists s (l_item_id l)) (loans s)))"

text \<open>\<^verbatim>\<open>EXISTS (SELECT 1 FROM loans l WHERE l.item_id = ... AND l.return_at IS NULL)\<close>.\<close>

definition has_open_loan :: "db \<Rightarrow> int \<Rightarrow> bool" where
  "has_open_loan s i = list_ex (\<lambda>l. l_item_id l = i \<and> l_return_at l = None) (loans s)"

text \<open>\<^verbatim>\<open>PERFORM 1 FROM equipment_items i WHERE i.item_id = ... AND i.status = 'available'\<close>.\<close>

definition item_available :: "db \<Rightarrow> int \<Rightarrow> bool" where
  "item_available s i = list_ex (\<lambda>x. i_item_id x = i \<and> i_status x = Available) (equipment_items s)"

definition update_item_status :: "int \<Rightarrow> item_status \<Rightarrow> db \<Rightarrow> db" where
  "update_item_status i st s =
     s\<lparr>equipment_items :=
         map (\<lambda>x. if i_item_id x = i then x\<lparr>i_status := st\<rparr> else x) (equipment_items s)\<rparr>"

definition set_reservation_status :: "int \<Rightarrow> reservation_status \<Rightarrow> db \<Rightarrow> db" where
  "set_reservation_status rid st s =
     s\<lparr>reservations :=
         map (\<lambda>x. if r_reservation_id x = rid then x\<lparr>r_status := st\<rparr> else x) (reservations s)\<rparr>"

text \<open>
  \<^verbatim>\<open>UPDATE reservations SET status = ..., decided_by = _approver, decision_reason = _reason WHERE reservation_id = _reservation_id RETURNING user_id INTO user_id\<close>
  with the foreign key of \<^verbatim>\<open>decided_by\<close>.  \<^verbatim>\<open>fn_approve_reservation\<close> and
  \<^verbatim>\<open>fn_deny_reservation\<close>, which run it, both declare \<^verbatim>\<open>r RECORD\<close>, \<^verbatim>\<open>user_id UUID\<close> and
  \<^verbatim>\<open>item_tag TEXT\<close>.
\<close>

definition decision_variables :: "string list" where
  "decision_variables = [''_approver'', ''_reservation_id'', ''_reason'', ''r'', ''user_id'', ''item_tag'']"

definition update_reservation_decision ::
  "int \<Rightarrow> reservation_status \<Rightarrow> uuid \<Rightarrow> string option \<Rightarrow> db \<Rightarrow> error + db" where
  "update_reservation_decision rid st approver reason s =
     bind_err (column_references decision_variables [''reservation_id'', ''user_id''])
       (\<lambda>_. if approver \<in> set (users s)
             then Inr (s\<lparr>reservations :=
                    map (\<lambda>x. if r_reservation_id x = rid
                              then x\<lparr>r_status := st, r_decided_by := Some approver,
                                     r_decision_reason := reason\<rparr>
                              else x) (reservations s)\<rparr>)
             else Inl (Foreign_key_violation ''reservations_decided_by_fkey''))"

section \<open>Inserts under the table constraints\<close>

text \<open>
  \<^verbatim>\<open>INSERT INTO reservations\<close>: the key is drawn from the sequence; the row must pass
  \<^verbatim>\<open>chk_period_nonempty\<close>, the primary key, the exclusion constraint
  \<^verbatim>\<open>reservations_no_overlap EXCLUDE USING gist (item_id WITH =, period WITH &&)\<close>, which
  has no condition on the status, and the foreign keys.
\<close>

definition reservation_excluded :: "db \<Rightarrow> int \<Rightarrow> timestamptz \<Rightarrow> timestamptz \<Rightarrow> bool" where
  "reservation_excluded s item lo hi =
     list_ex (\<lambda>x. r_item_id x = item \<and> range_overlaps (r_lower x) (Some (r_upper x)) lo (Some hi))
       (reservations s)"

definition insert_reservation ::
  "int \<Rightarrow> uuid \<Rightarrow> timestamptz \<Rightarrow> timestamptz \<Rightarrow> db \<Rightarrow> error + (int \<times> db)" where
  "insert_reservation item actor lo hi s =
     (let rid = reservations_seq s + 1 in
      if \<not> lo < hi then Inl (Check_violation ''chk_period_nonempty'')
      else if rid \<in> set (map r_reservation_id (reservations s))
        then Inl (Unique_violation ''reservations_pkey'')
      else if reservation_excluded s item lo hi
        then Inl (Exclusion_violation ''reservations_no_overlap'')
      else if \<not> item_exists s item
        then Inl (Foreign_key_violation ''reservations_item_id_fkey'')
      else if actor \<notin> set (users s)
        then Inl (Foreign_key_violation ''reservations_user_id_fkey'')
      else Inr (rid, s\<lparr>reservations := reservations s @
             [\<lparr>r_reservation_id = rid, r_item_id = item, r_user_id = actor, r_lower = lo,
               r_upper = hi, r_status = Pending, r_decided_by = None, r_decision_reason = None\<rparr>],
             reservations_seq := rid\<rparr>))"

text \<open>
  \<^verbatim>\<open>INSERT INTO loans(...) VALUES (...) RETURNING loan_id INTO loan_id\<close>, the statement of
  the two checkout functions, each of which declares \<^verbatim>\<open>loan_id BIGINT\<close>; \<open>vars\<close> are the
  names the calling function declares.  A row that is inserted must pass
  \<^verbatim>\<open>chk_due_after_checkout\<close>, the primary key,
  \<^verbatim>\<open>uq_loans_reservation UNIQUE (reservation_id)\<close>, the exclusion constraint
  \<^verbatim>\<open>loans_no_overlap\<close> on \<^verbatim>\<open>tstzrange(checkout_at, COALESCE(return_at, 'infinity'), '[)')\<close>,
  and the foreign keys.
\<close>

definition loan_excluded :: "db \<Rightarrow> int \<Rightarrow> int \<Rightarrow> timestamptz \<Rightarrow> timestamptz option \<Rightarrow> bool" where
  "loan_excluded s lid item lo hi =
     list_ex (\<lambda>x. l_loan_id x \<noteq> lid \<and> l_item_id x = item \<and>
                  range_overlaps (l_checkout_at x) (l_return_at x) lo hi) (loans s)"

definition reservation_has_loan :: "db \<Rightarrow> int \<Rightarrow> bool" where
  "reservation_has_loan s rid = list_ex (\<lambda>x. l_reservation_id x = Some rid) (loans s)"

definition insert_loan ::
  "string list \<Rightarrow> int \<Rightarrow> uuid \<Rightarrow> int option \<Rightarrow> timestamptz \<Rightarrow> timestamptz \<Rightarrow> db
     \<Rightarrow> error + (int \<times> db)" where
  "insert_loan vars item user_id res checkout due s =
     bind_err (column_references vars [''loan_id''])
       (\<lambda>_. let lid = loans_seq s + 1 in
          if \<not> checkout < due then Inl (Check_violation ''chk_due_after_checkout'')
          else if lid \<in> set (map l_loan_id (loans s)) then Inl (Unique_violation ''loans_pkey'')
          else if (case res of None \<Rightarrow> False | Some rid \<Rightarrow> reservation_has_loan s rid)
            then Inl (Unique_violation ''uq_loans_reservation'')
          else if loan_excluded s lid item checkout None
            then Inl (Exclusion_violation ''loans_no_overlap'')
          else if \<not> item_exists s item then Inl (Foreign_key_violation ''loans_item_id_fkey'')
          else if user_id \<notin> set (users s) then Inl (Foreign_key_violation ''loans_user_id_fkey'')
          else if (case res of None \<Rightarrow> False
                   | Some rid \<Rightarrow> rid \<notin> set (map r_reservation_id (reservations s)))
            then Inl (Foreign_key_violation ''loans_reservation_id_fkey'')
          else Inr (lid, s\<lparr>loans := loans s @
                 [\<lparr>l_loan_id = lid, l_item_id = item, l_user_id = user_id, l_reservation_id = res,
                   l_checkout_at = checkout, l_due_at = due, l_return_at = None, l_damaged = False,
                   l_return_condition = None\<rparr>],
                 loans_seq := lid\<rparr>))"

text \<open>
  \<^verbatim>\<open>INSERT INTO maintenance_tickets\<close>.  The table has a primary key on the serial
  \<^verbatim>\<open>ticket_id\<close> and no other unique or exclusion constraint, so
  \<^verbatim>\<open>ON CONFLICT DO NOTHING\<close> can only skip a row whose drawn key is already taken.
\<close>

definition new_ticket :: "int \<Rightarrow> int \<Rightarrow> int \<Rightarrow> uuid \<Rightarrow> string option \<Rightarrow> maintenance_ticket" where
  "new_ticket tid item lid opener descr =
     \<lparr>t_ticket_id = tid, t_item_id = item, t_loan_id = Some lid, t_opened_by = opener,
      t_assigned_to = None, t_severity = Medium, t_status = Ticket_open, t_description = descr\<rparr>"

definition ticket_fk_error :: "db \<Rightarrow> int \<Rightarrow> int \<Rightarrow> uuid \<Rightarrow> error option" where
  "ticket_fk_error s item lid opener =
     (if \<not> item_exists s item then Some (Foreign_key_violation ''maintenance_tickets_item_id_fkey'')
      else if lid \<notin> set (map l_loan_id (loans s))
        then Some (Foreign_key_violation ''maintenance_tickets_loan_id_fkey'')
      else if opener \<notin> set (users s)
        then Some (Foreign_key_violation ''maintenance_tickets_opened_by_fkey'')
      else None)"

definition insert_ticket :: "int \<Rightarrow> int \<Rightarrow> uuid \<Rightarrow> string option \<Rightarrow> db \<Rightarrow> error + db" where
  "insert_ticket item lid opener descr s =
     (let tid = tickets_seq s + 1 in
      if tid \<in> set (map t_ticket_id (maintenance_tickets s))
        then Inl (Unique_violation ''maintenance_tickets_pkey'')
      else (case ticket_fk_error s item lid opener of
              Some e \<Rightarrow> Inl e
            | None \<Rightarrow> Inr (s\<lparr>maintenance_tickets :=
                           maintenance_tickets s @ [new_ticket tid item lid opener descr],
                         tickets_seq := tid\<rparr>)))"

definition insert_ticket_on_conflict_do_nothing ::
  "int \<Rightarrow> int \<Rightarrow> uuid \<Rightarrow> string option \<Rightarrow> db \<Rightarrow> error + db" where
  "insert_ticket_on_conflict_do_nothing item lid opener descr s =
     (let tid = tickets_seq s + 1 in
      if tid \<in> set (map t_ticket_id (maintenance_tickets s))
        then Inr (s\<lparr>tickets_seq := tid\<rparr>)
      else (case ticket_fk_error s item lid opener of
              Some e \<Rightarrow> Inl e
            | None \<Rightarrow> Inr (s\<lparr>maintenance_tickets :=
                           maintenance_tickets s @ [new_ticket tid item lid opener descr],
                         tickets_seq := tid\<rparr>)))"

text \<open>
  \<^verbatim>\<open>INSERT INTO penalties\<close>: the amount is stored as \<^verbatim>\<open>NUMERIC(10,2)\<close> (rounded to two
  decimals, at most eight digits before the point) under \<^verbatim>\<open>CHECK (amount_mad >= 0)\<close>.
\<close>

definition numeric_10_2 :: "rat \<Rightarrow> error + rat" where
  "numeric_10_2 v =
     (let c = round_half_away (v * 100) in
      if \<bar>c\<bar> < 10000000000 then Inr (of_int c / 100) else Inl Numeric_field_overflow)"

definition insert_penalty :: "int \<Rightarrow> uuid \<Rightarrow> rat \<Rightarrow> db \<Rightarrow> error + db" where
  "insert_penalty lid user_id amount s =
     bind_err (numeric_10_2 amount) (\<lambda>a.
       if a < 0 then Inl (Check_violation ''penalties_amount_mad_check'')
       else if lid \<notin> set (map l_loan_id (loans s))
         then Inl (Foreign_key_violation ''penalties_loan_id_fkey'')
       else if user_id \<notin> set (users s)
         then Inl (Foreign_key_violation ''penalties_user_id_fkey'')
       else Inr (s\<lparr>penalties := penalties s @
              [\<lparr>p_loan_id = lid, p_user_id = user_id, p_amount_mad = a, p_reason = ''overdue''\<rparr>]\<rparr>))"

section \<open>Reservation lifecycle\<close>

text \<open>
  \<^verbatim>\<open>fn_request_reservation(_actor, _item, _start, _end)\<close>: the test of the bounds, the
  \<^verbatim>\<open>INSERT ... RETURNING reservation_id INTO rid\<close>, the audit row, and the call of
  \<^verbatim>\<open>fn_create_notification\<close>.
\<close>

definition fn_request_reservation ::
  "uuid \<Rightarrow> int \<Rightarrow> timestamptz \<Rightarrow> timestamptz \<Rightarrow> db \<Rightarrow> error + (int \<times> db)" where
  "fn_request_reservation actor item start_at end_at s =
     (if start_at \<ge> end_at then Inl Start_must_be_before_end
      else bind_err (insert_reservation item actor start_at end_at s) (\<lambda>(rid, s1).
           bind_err (fn_audit actor ''reservation'' rid ''request'' s1) (\<lambda>s2.
           bind_err (fn_create_notification actor N_reservation rid s2) (\<lambda>s3.
           Inr (rid, s3)))))"

text \<open>
  \<^verbatim>\<open>fn_approve_reservation(_approver, _reservation_id, _reason)\<close>.  The conflict test is
  the \<^verbatim>\<open>EXISTS\<close> subquery over the other approved or confirmed reservations of the item.
\<close>

definition approve_conflict :: "reservation \<Rightarrow> reservation \<Rightarrow> bool" where
  "approve_conflict r x =
     (r_item_id x = r_item_id r \<and> r_reservation_id x \<noteq> r_reservation_id r \<and>
      (r_status x = Approved \<or> r_status x = Confirmed) \<and>
      range_overlaps (r_lower x) (Some (r_upper x)) (r_lower r) (Some (r_upper r)))"

definition fn_approve_reservation :: "uuid \<Rightarrow> int \<Rightarrow> string option \<Rightarrow> db \<Rightarrow> error + db" where
  "fn_approve_reservation approver rid reason s =
     (case select_reservation_join_item s rid of
        None \<Rightarrow> Inl Reservation_not_found
      | Some r \<Rightarrow>
          if r_status r \<noteq> Pending \<and> r_status r \<noteq> Approved \<and> r_status r \<noteq> Confirmed
            then Inl (Cannot_be_approved_from_status (r_status r))
          else if list_ex (approve_conflict r) (reservations s)
            then Inl Overlap_with_existing_reservation
          else bind_err (update_reservation_decision rid Approved approver reason s) (\<lambda>s1.
               bind_err (fn_audit approver ''reservation'' rid ''approve'' s1) (\<lambda>s2.
               fn_create_notification (r_user_id r) N_reservation rid s2)))"

text \<open>\<^verbatim>\<open>fn_deny_reservation(_approver, _reservation_id, _reason)\<close>: no test of status or reason.\<close>

definition fn_deny_reservation :: "uuid \<Rightarrow> int \<Rightarrow> string option \<Rightarrow> db \<Rightarrow> error + db" where
  "fn_deny_reservation approver rid reason s =
     (case select_reservation_join_item s rid of
        None \<Rightarrow> Inl Reservation_not_found
      | Some r \<Rightarrow>
          bind_err (update_reservation_decision rid Denied approver reason s) (\<lambda>s1.
          bind_err (fn_audit approver ''reservation'' rid ''deny'' s1) (\<lambda>s2.
          fn_create_notification (r_user_id r) N_reservation rid s2)))"

text \<open>
  The handler of \<^verbatim>\<open>POST /api/reservations/:id/deny\<close> (after authentication): the test
  \<^verbatim>\<open>if (!reason)\<close> answers 400 for an absent, null or empty reason before the stored
  procedure is called; an error of the procedure is caught and answered with 500.  The
  reason of the request body is a string or absent.
\<close>

definition post_reservation_deny :: "uuid \<Rightarrow> int \<Rightarrow> string option \<Rightarrow> db \<Rightarrow> error + db" where
  "post_reservation_deny user_id rid reason s =
     (if reason = None \<or> reason = Some [] then Inl Reason_is_required
      else fn_deny_reservation user_id rid reason s)"

text \<open>\<^verbatim>\<open>fn_cancel_reservation(_actor, _reservation_id)\<close>.\<close>

definition fn_cancel_reservation :: "uuid \<Rightarrow> int \<Rightarrow> timestamptz \<Rightarrow> db \<Rightarrow> error + db" where
  "fn_cancel_reservation actor rid now s =
     (case select_reservation s rid of
        None \<Rightarrow> Inl Reservation_not_found
      | Some r \<Rightarrow>
          if r_user_id r \<noteq> actor then Inl Only_owner_can_cancel
          else if r_lower r \<le> now then Inl Cannot_cancel_after_start
          else fn_audit actor ''reservation'' rid ''cancel'' (set_reservation_status rid Cancelled s))"

text \<open>
  \<^verbatim>\<open>fn_expire_old_reservations()\<close>.  The \<^verbatim>\<open>UPDATE\<close> runs first and its row count is the
  result; the cursor \<^verbatim>\<open>expired_reservations\<close> is opened by the \<^verbatim>\<open>FOR\<close> loop after it, on
  the updated table, with the same condition on status and period.
\<close>

definition stale :: "timestamptz \<Rightarrow> reservation \<Rightarrow> bool" where
  "stale now r = ((r_status r = Pending \<or> r_status r = Approved) \<and> r_upper r < now)"

fun notify_expired :: "reservation list \<Rightarrow> db \<Rightarrow> error + db" where
  "notify_expired [] s = Inr s"
| "notify_expired (rec # recs) s =
     bind_err (fn_create_notification (r_user_id rec) N_reservation (r_reservation_id rec) s)
       (notify_expired recs)"

definition fn_expire_old_reservations :: "timestamptz \<Rightarrow> db \<Rightarrow> error + (int \<times> db)" where
  "fn_expire_old_reservations now s =
     (let s1 = s\<lparr>reservations :=
                  map (\<lambda>r. if stale now r then r\<lparr>r_status := Expired\<rparr> else r) (reservations s)\<rparr>;
          n = int (length (filter (stale now) (reservations s)));
          expired_reservations =
            filter (\<lambda>r. stale now r \<and> item_exists s1 (r_item_id r)) (reservations s1)
      in bind_err (notify_expired expired_reservations s1) (\<lambda>s2. Inr (n, s2)))"

section \<open>Loan lifecycle\<close>

text \<open>
  The due date: \<^verbatim>\<open>nowts + make_interval(days => COALESCE((SELECT value::INT ...), 7))\<close>.
  The cast rounds the numeric setting to the nearest integer.  The days are added on the
  calendar of the session's time zone; the embedding takes a zone without clock changes,
  where a day is 86400 seconds.  The due date is used by the \<^verbatim>\<open>INSERT\<close> that follows and
  by nothing else.
\<close>

definition numeric_to_int4 :: "rat \<Rightarrow> error + int" where
  "numeric_to_int4 v =
     (let n = round_half_away v in
      if - 2147483648 \<le> n \<and> n \<le> 2147483647 then Inr n else Inl Integer_out_of_range)"

definition default_loan_days :: "db \<Rightarrow> error + int" where
  "default_loan_days s =
     (case setting s ''default_loan_days'' of None \<Rightarrow> Inr 7 | Some v \<Rightarrow> numeric_to_int4 v)"

text \<open>
  \<^verbatim>\<open>fn_checkout_from_reservation(_actor, _reservation_id)\<close> declares \<^verbatim>\<open>r RECORD\<close>,
  \<^verbatim>\<open>loan_id BIGINT\<close>, \<^verbatim>\<open>due TIMESTAMPTZ\<close> and \<^verbatim>\<open>nowts TIMESTAMPTZ\<close>.
\<close>

definition checkout_variables :: "string list" where
  "checkout_variables = [''_actor'', ''_reservation_id'', ''r'', ''loan_id'', ''due'', ''nowts'']"

definition fn_checkout_from_reservation ::
  "uuid \<Rightarrow> int \<Rightarrow> timestamptz \<Rightarrow> db \<Rightarrow> error + (int \<times> db)" where
  "fn_checkout_from_reservation actor rid now s =
     (case select_reservation s rid of
        None \<Rightarrow> Inl Reservation_not_found
      | Some r \<Rightarrow>
          if r_status r \<noteq> Approved \<and> r_status r \<noteq> Confirmed
            then Inl Reservation_not_approved_confirmed
          else if has_open_loan s (r_item_id r) then Inl Item_is_currently_checked_out
          else if \<not> item_available s (r_item_id r) then Inl Item_not_available
          else bind_err (default_loan_days s) (\<lambda>days.
               bind_err (insert_loan checkout_variables (r_item_id r) (r_user_id r)
                           (Some (r_reservation_id r)) now (now + days * usec_per_day) s) (\<lambda>(loan_id, s1).
               bind_err (fn_audit actor ''loan'' loan_id ''checkout_from_reservation''
                           (update_item_status (r_item_id r) Checked_out
                              (set_reservation_status rid Confirmed s1))) (\<lambda>s2.
               bind_err (fn_create_notification (r_user_id r) N_loan loan_id s2) (\<lambda>s3.
               Inr (loan_id, s3))))))"

text \<open>
  \<^verbatim>\<open>fn_checkout_adhoc(_actor, _user, _item)\<close> declares \<^verbatim>\<open>loan_id BIGINT\<close>,
  \<^verbatim>\<open>due TIMESTAMPTZ\<close>, \<^verbatim>\<open>nowts TIMESTAMPTZ\<close> and \<^verbatim>\<open>item_tag TEXT\<close>.
\<close>

definition adhoc_variables :: "string list" where
  "adhoc_variables = [''_actor'', ''_user'', ''_item'', ''loan_id'', ''due'', ''nowts'', ''item_tag'']"

definition fn_checkout_adhoc ::
  "uuid \<Rightarrow> uuid \<Rightarrow> int \<Rightarrow> timestamptz \<Rightarrow> db \<Rightarrow> error + (int \<times> db)" where
  "fn_checkout_adhoc actor user_id item now s =
     (if has_open_loan s item then Inl Item_is_currently_checked_out
      else if \<not> item_available s item then Inl Item_not_available
      else bind_err (default_loan_days s) (\<lambda>days.
           bind_err (insert_loan adhoc_variables item user_id None now
                       (now + days * usec_per_day) s) (\<lambda>(loan_id, s1).
           bind_err (fn_audit actor ''loan'' loan_id ''checkout_adhoc''
                       (update_item_status item Checked_out s1)) (\<lambda>s2.
           bind_err (fn_create_notification user_id N_loan loan_id s2) (\<lambda>s3.
           Inr (loan_id, s3))))))"

text \<open>
  The trigger \<^verbatim>\<open>trg_loans_after_update\<close>, fired \<^verbatim>\<open>AFTER UPDATE ON loans FOR EACH ROW\<close>
  with the old and the new row.
\<close>

definition or_damaged_on_return :: "string option \<Rightarrow> string option" where
  "or_damaged_on_return c = (case c of None \<Rightarrow> Some ''Damaged on return'' | Some t \<Rightarrow> Some t)"

definition trg_loans_after_update :: "loan \<Rightarrow> loan \<Rightarrow> db \<Rightarrow> error + db" where
  "trg_loans_after_update old new s =
     (if l_return_at new \<noteq> None \<and> l_damaged new \<and>
         (l_return_at old = None \<or> l_damaged old \<noteq> l_damaged new)
      then bind_err (insert_ticket_on_conflict_do_nothing (l_item_id new) (l_loan_id new)
                       (l_user_id new) (or_damaged_on_return (l_return_condition new)) s) (\<lambda>s1.
           Inr (update_item_status (l_item_id new) Out_of_service s1))
      else Inr s)"

fun fire_loans_after_update :: "(loan \<times> loan) list \<Rightarrow> db \<Rightarrow> error + db" where
  "fire_loans_after_update [] s = Inr s"
| "fire_loans_after_update ((old, new) # rows) s =
     bind_err (trg_loans_after_update old new s) (fire_loans_after_update rows)"

text \<open>
  \<^verbatim>\<open>UPDATE loans SET return_at = now(), damaged = ..., return_condition = ... WHERE loan_id = ...\<close>:
  the written rows must pass \<^verbatim>\<open>chk_return_after_checkout\<close> and \<^verbatim>\<open>loans_no_overlap\<close>
  against the other rows; then the row trigger fires.
\<close>

definition returned :: "timestamptz \<Rightarrow> bool \<Rightarrow> string option \<Rightarrow> loan \<Rightarrow> loan" where
  "returned now dmg cond x = x\<lparr>l_return_at := Some now, l_damaged := dmg, l_return_condition := cond\<rparr>"

definition update_loan_returned ::
  "int \<Rightarrow> timestamptz \<Rightarrow> bool \<Rightarrow> string option \<Rightarrow> db \<Rightarrow> error + db" where
  "update_loan_returned lid now dmg cond s =
     (let olds = filter (\<lambda>x. l_loan_id x = lid) (loans s) in
      if list_ex (\<lambda>x. now < l_checkout_at x) olds
        then Inl (Check_violation ''chk_return_after_checkout'')
      else if list_ex (\<lambda>x. loan_excluded s lid (l_item_id x) (l_checkout_at x) (Some now)) olds
        then Inl (Exclusion_violation ''loans_no_overlap'')
      else fire_loans_after_update (map (\<lambda>x. (x, returned now dmg cond x)) olds)
             (s\<lparr>loans := map (\<lambda>x. if l_loan_id x = lid then returned now dmg cond x else x) (loans s)\<rparr>))"

text \<open>
  \<^verbatim>\<open>fn_return_loan(_actor, _loan_id, _damaged, _condition)\<close>, its three commented
  blocks first: the item status, the penalty if overdue, the ticket if damaged.  The
  function declares \<^verbatim>\<open>l RECORD\<close>, \<^verbatim>\<open>amount NUMERIC\<close> and \<^verbatim>\<open>item_tag TEXT\<close>.
\<close>

definition mark_item_returned :: "int \<Rightarrow> bool \<Rightarrow> db \<Rightarrow> db" where
  "mark_item_returned item dmg s =
     update_item_status item (if dmg then Out_of_service else Available) s"

definition penalty_if_overdue :: "loan \<Rightarrow> timestamptz \<Rightarrow> db \<Rightarrow> error + db" where
  "penalty_if_overdue l now s =
     (let amount = fn_compute_penalty_amount s (l_due_at l) now in
      if amount > 0
      then bind_err (insert_penalty (l_loan_id l) (l_user_id l) amount s)
             (fn_create_notification (l_user_id l) N_penalty (l_loan_id l))
      else Inr s)"

definition ticket_if_damaged :: "uuid \<Rightarrow> loan \<Rightarrow> bool \<Rightarrow> string option \<Rightarrow> db \<Rightarrow> error + db" where
  "ticket_if_damaged actor l dmg condition s =
     (if dmg
      then insert_ticket (l_item_id l) (l_loan_id l) actor (or_damaged_on_return condition) s
      else Inr s)"

definition fn_return_loan ::
  "uuid \<Rightarrow> int \<Rightarrow> bool option \<Rightarrow> string option \<Rightarrow> timestamptz \<Rightarrow> db \<Rightarrow> error + db" where
  "fn_return_loan actor lid damaged condition now s =
     bind_err (select_loan_join_item s lid) (\<lambda>found.
       case found of
         None \<Rightarrow> Inl Loan_not_found
       | Some l \<Rightarrow>
           if l_return_at l \<noteq> None then Inl Loan_already_returned
           else
             let dmg = (case damaged of None \<Rightarrow> False | Some b \<Rightarrow> b)
             in bind_err (update_loan_returned lid now dmg condition s) (\<lambda>s1.
                bind_err (penalty_if_overdue l now (mark_item_returned (l_item_id l) dmg s1)) (\<lambda>s2.
                bind_err (ticket_if_damaged actor l dmg condition s2) (\<lambda>s3.
                bind_err (fn_audit actor ''loan'' lid ''return'' s3) (\<lambda>s4.
                fn_create_notification (l_user_id l) N_return lid s4)))))"

text \<open>\<^verbatim>\<open>fn_item_update(_actor, _item, _status, _location, _last_serviced)\<close>.\<close>

definition fn_item_update :: "uuid \<Rightarrow> int \<Rightarrow> item_status \<Rightarrow> db \<Rightarrow> error + db" where
  "fn_item_update actor item st s = fn_audit actor ''item'' item ''update'' (update_item_status item st s)"

section \<open>Operations as transactions\<close>

datatype operation =
  Request_reservation uuid int timestamptz timestamptz
  | Approve_reservation uuid int "string option"
  | Deny_reservation uuid int "string option"
  | Cancel_reservation uuid int
  | Expire_old_reservations
  | Checkout_from_reservation uuid int
  | Checkout_adhoc uuid uuid int
  | Return_loan uuid int "bool option" "string option"
  | Item_update uuid int item_status

fun run_operation :: "timestamptz \<Rightarrow> operation \<Rightarrow> db \<Rightarrow> error + db" where
  "run_operation now (Request_reservation actor item start_at end_at) s =
     map_sum id snd (fn_request_reservation actor item start_at end_at s)"
| "run_operation now (Approve_reservation approver rid reason) s =
     fn_approve_reservation approver rid reason s"
| "run_operation now (Deny_reservation approver rid reason) s =
     fn_deny_reservation approver rid reason s"
| "run_operation now (Cancel_reservation actor rid) s = fn_cancel_reservation actor rid now s"
| "run_operation now Expire_old_reservations s = map_sum id snd (fn_expire_old_reservations now s)"
| "run_operation now (Checkout_from_reservation actor rid) s =
     map_sum id snd (fn_checkout_from_reservation actor rid now s)"
| "run_operation now (Checkout_adhoc actor user_id item) s =
     map_sum id snd (fn_checkout_adhoc actor user_id item now s)"
| "run_operation now (Return_loan actor lid damaged condition) s =
     fn_return_loan actor lid damaged condition now s"
| "run_operation now (Item_update actor item st) s = fn_item_update actor item st s"

text \<open>The database after the transaction: unchanged when the operation raised.\<close>

definition apply_op :: "timestamptz \<Rightarrow> operation \<Rightarrow> db \<Rightarrow> db" where
  "apply_op now op s = (case run_operation now op s of Inl e \<Rightarrow> s | Inr s' \<Rightarrow> s')"

section \<open>Vocabulary of the properties\<close>

subsection \<open>What the claims speak of\<close>

text \<open>
  The primary key of \<^verbatim>\<open>reservations\<close>, which PostgreSQL keeps in every state; the
  reservations that hold an asset (approved or confirmed); disjointness of two half-open
  periods as sets of instants; the no-double-booking invariant; and a run of operations,
  each a transaction at its own time.
\<close>

definition reservations_pkey :: "db \<Rightarrow> bool" where
  "reservations_pkey s = distinct (map r_reservation_id (reservations s))"

definition active :: "reservation \<Rightarrow> bool" where
  "active r = (r_status r = Approved \<or> r_status r = Confirmed)"

definition disjoint_periods :: "reservation \<Rightarrow> reservation \<Rightarrow> bool" where
  "disjoint_periods x y = ({r_lower x ..< r_upper x} \<inter> {r_lower y ..< r_upper y} = {})"

definition no_double_booking :: "db \<Rightarrow> bool" where
  "no_double_booking s =
     (\<forall>x \<in> set (reservations s). \<forall>y \<in> set (reservations s).
        r_reservation_id x \<noteq> r_reservation_id y \<and> r_item_id x = r_item_id y \<and> active x \<and> active y
        \<longrightarrow> disjoint_periods x y)"

fun run_all :: "(timestamptz \<times> operation) list \<Rightarrow> db \<Rightarrow> db" where
  "run_all [] s = s"
| "run_all ((now, op) # rest) s = run_all rest (apply_op now op s)"

text \<open>
  The status of a reservation as a query by key returns it, and a state with the period
  of one reservation replaced.
\<close>

definition reservation_status_of :: "db \<Rightarrow> int \<Rightarrow> reservation_status option" where
  "reservation_status_of s rid = map_option r_status (select_reservation s rid)"

definition set_period :: "int \<Rightarrow> timestamptz \<Rightarrow> timestamptz \<Rightarrow> db \<Rightarrow> db" where
  "set_period rid lo hi s =
     s\<lparr>reservations :=
         map (\<lambda>x. if r_reservation_id x = rid then x\<lparr>r_lower := lo, r_upper := hi\<rparr> else x)
           (reservations s)\<rparr>"

subsection \<open>Sample states\<close>

text \<open>
  An empty database with the seeded settings, two users and one asset; the same with a
  per-day rate of 25; and a desk with three users, two assets, an approved reservation of
  the first asset and a pending reservation of the second.
\<close>

definition db0 :: db where
  "db0 = \<lparr>users = [7, 8], equipment_items = [\<lparr>i_item_id = 1, i_status = Available\<rparr>],
          reservations = [], loans = [], penalties = [], maintenance_tickets = [],
          notifications = [], audit_events = [],
          celms_settings = [(''default_loan_days'', Some 7), (''penalty_per_day_mad'', Some 10)],
          reservations_seq = 0, loans_seq = 0, tickets_seq = 0\<rparr>"


definition db_booked :: db where
  "db_booked = db0\<lparr>users := [7, 8, 9],
     equipment_items := [\<lparr>i_item_id = 1, i_status = Available\<rparr>, \<lparr>i_item_id = 2, i_status = Available\<rparr>],
     reservations :=
       [\<lparr>r_reservation_id = 1, r_item_id = 1, r_user_id = 7, r_lower = 0, r_upper = 10,
         r_status = Approved, r_decided_by = Some 9, r_decision_reason = None\<rparr>,
        \<lparr>r_reservation_id = 2, r_item_id = 2, r_user_id = 8, r_lower = 5, r_upper = 15,
         r_status = Pending, r_decided_by = None, r_decision_reason = None\<rparr>],
     reservations_seq := 2\<rparr>"

text \<open>
  A state with an approved and an overlapping pending reservation of the same asset.  The
  exclusion constraint of the table rules it out; it serves to exercise the overlap test
  of the approval, which no state of the schema can reach.
\<close>

definition db_two_requests :: db where
  "db_two_requests = db0\<lparr>users := [7, 8, 9],
     reservations :=
       [\<lparr>r_reservation_id = 1, r_item_id = 1, r_user_id = 7, r_lower = 0, r_upper = 10,
         r_status = Approved, r_decided_by = Some 9, r_decision_reason = None\<rparr>,
        \<lparr>r_reservation_id = 2, r_item_id = 1, r_user_id = 8, r_lower = 5, r_upper = 15,
         r_status = Pending, r_decided_by = None, r_decision_reason = None\<rparr>],
     reservations_seq := 2\<rparr>"

text \<open>
  A pending reservation whose period has ended; an open loan due at 100; the same loan
  returned at 50; and three reservations in statuses the specification calls terminal.
\<close>

definition db_stale :: db where
  "db_stale = db0\<lparr>reservations :=
       [\<lparr>r_reservation_id = 1, r_item_id = 1, r_user_id = 7, r_lower = 0, r_upper = 10,
         r_status = Pending, r_decided_by = None, r_decision_reason = None\<rparr>],
     reservations_seq := 1\<rparr>"

definition db_open_loan :: db where
  "db_open_loan = db0\<lparr>users := [7, 8, 9],
     equipment_items := [\<lparr>i_item_id = 1, i_status = Checked_out\<rparr>],
     loans := [\<lparr>l_loan_id = 1, l_item_id = 1, l_user_id = 8, l_reservation_id = None,
                l_checkout_at = 0, l_due_at = 100, l_return_at = None, l_damaged = False,
                l_return_condition = None\<rparr>],
     loans_seq := 1\<rparr>"

definition db_returned_loan :: db where
  "db_returned_loan = db0\<lparr>users := [7, 8, 9],
     loans := [\<lparr>l_loan_id = 1, l_item_id = 1, l_user_id = 8, l_reservation_id = None,
                l_checkout_at = 0, l_due_at = 100, l_return_at = Some 50, l_damaged = False,
                l_return_condition = None\<rparr>],
     loans_seq := 1\<rparr>"

definition db_terminal :: db where
  "db_terminal = db0\<lparr>users := [7, 8, 9],
     equipment_items := [\<lparr>i_item_id = 1, i_status = Available\<rparr>, \<lparr>i_item_id = 2, i_status = Available\<rparr>,
                         \<lparr>i_item_id = 3, i_status = Available\<rparr>],
     reservations :=
       [\<lparr>r_reservation_id = 1, r_item_id = 1, r_user_id = 7, r_lower = 100, r_upper = 200,
         r_status = Confirmed, r_decided_by = Some 9, r_decision_reason = None\<rparr>,
        \<lparr>r_reservation_id = 2, r_item_id = 2, r_user_id = 8, r_lower = 100, r_upper = 200,
         r_status = Cancelled, r_decided_by = None, r_decision_reason = None\<rparr>,
        \<lparr>r_reservation_id = 3, r_item_id = 3, r_user_id = 8, r_lower = 100, r_upper = 200,
         r_status = Denied, r_decided_by = Some 9, r_decision_reason = Some ''no''\<rparr>],
     reservations_seq := 3\<rparr>"

section \<open>Penalty: properties\<close>

text \<open>Weight and first digit of a value between two powers of the base.\<close>

lemma nbase_weight_le: "n < 10000 ^ Suc k \<Longrightarrow> nbase_weight n \<le> int k"
proof (induction k arbitrary: n)
  case 0
  then show ?case by (simp add: nbase_weight.simps)
next
  case (Suc k)
  show ?case
  proof (cases "n < 10000")
    case True
    then show ?thesis by (simp add: nbase_weight.simps)
  next
    case False
    from Suc.prems have "n div 10000 < 10000 ^ Suc k" by simp
    from Suc.IH [OF this] False show ?thesis by (simp add: nbase_weight.simps [of n])
  qed
qed

lemma nbase_leading:
  "10000 ^ k \<le> n \<Longrightarrow> n < 10000 ^ Suc k \<Longrightarrow>
     nbase_weight n = int k \<and> nbase_first_digit n = n div 10000 ^ k"
proof (induction k arbitrary: n)
  case 0
  then show ?case by (simp add: nbase_weight.simps nbase_first_digit.simps)
next
  case (Suc k)
  have big: "\<not> n < 10000"
  proof -
    have "(10000::int) ^ 1 \<le> 10000 ^ Suc k" by (rule power_increasing) simp_all
    then have "(10000::int) \<le> 10000 ^ Suc k" by (simp only: power_one_right)
    with Suc.prems(1) show ?thesis by linarith
  qed
  from Suc.prems have lo: "10000 ^ k \<le> n div 10000" by simp
  from Suc.prems have hi: "n div 10000 < 10000 ^ Suc k" by simp
  have "n div 10000 div 10000 ^ k = n div 10000 ^ Suc k"
    by (simp add: zdiv_zmult2_eq)
  with Suc.IH [OF lo hi] big show ?case
    by (simp add: nbase_weight.simps [of n] nbase_first_digit.simps [of n])
qed

text \<open>
  Below \<open>9 \<times> 10\<^sup>1\<^sup>2\<close> seconds of lateness the quotient keeps at least twelve decimals.
\<close>

lemma div_scale_epoch:
  assumes "0 < d" and "d < 9000000000000000000"
  shows "12 \<le> select_div_scale (numeric_weight (epoch_from_interval d))
                 (numeric_first_digit (epoch_from_interval d)) 6 1 8 1"
proof -
  have "epoch_from_interval d * 100000000 = of_int (100 * d)"
    by (simp add: epoch_from_interval_def)
  then have units: "\<lfloor>epoch_from_interval d * 100000000\<rfloor> = 100 * d"
    by (simp only: floor_of_int)
  show ?thesis
  proof (cases "100 * d < 10000 ^ Suc 4")
    case True
    from nbase_weight_le [OF this] have "nbase_weight (100 * d) \<le> 4" by simp
    then show ?thesis
      by (auto simp: select_div_scale_def numeric_weight_def units Let_def)
  next
    case False
    then have lo: "10000 ^ 5 \<le> 100 * d" by simp
    from assms have hi: "100 * d < 10000 ^ Suc 5" by simp
    from nbase_leading [OF lo hi] have w: "nbase_weight (100 * d) = 5"
      and f: "nbase_first_digit (100 * d) = 100 * d div 10000 ^ 5" by simp_all
    from assms have "100 * d div 10000 ^ 5 \<le> 8" by simp
    with w f show ?thesis
      by (simp add: select_div_scale_def numeric_weight_def numeric_first_digit_def units Let_def)
  qed
qed

text \<open>
  A quotient of a whole number of microseconds by a day, rounded at eleven decimals or
  more, has the ceiling of the exact quotient: two such quotients differ by at least
  \<open>1 / 86400000000\<close>, more than a unit of the eleventh decimal.
\<close>

lemma numeric_div_ceiling:
  assumes "0 < d" and "11 \<le> r"
  shows "\<lceil>numeric_div (epoch_from_interval d) 86400 r\<rceil> = \<lceil>(of_int d :: rat) / 86400000000\<rceil>"
proof -
  define q :: rat where "q = of_int d / 86400000000"
  define N where "N = \<lceil>q\<rceil>"
  define P :: rat where "P = 10 ^ r"
  have P11: "(10::rat) ^ 11 \<le> P" unfolding P_def using assms(2) by (intro power_increasing) simp_all
  then have Ppos: "0 < P" by simp
  have qpos: "0 < q" using assms(1) by (simp add: q_def)
  have quot: "epoch_from_interval d / 86400 = q" by (simp add: epoch_from_interval_def q_def)
  have rnd: "round_half_away (q * P) = \<lfloor>q * P + 1 / 2\<rfloor>"
    using qpos Ppos by (simp add: round_half_away_def)
  have up: "q \<le> of_int N" by (simp add: N_def)
  have "of_int N - 1 < q" unfolding N_def by linarith
  then have "(of_int (N - 1) :: rat) < of_int d / 86400000000" by (simp add: q_def)
  then have "(N - 1) * 86400000000 < d" by (simp add: pos_less_divide_eq flip: of_int_mult of_int_less_iff)
  then have "(N - 1) * 86400000000 + 1 \<le> d" by simp
  then have "(of_int ((N - 1) * 86400000000 + 1) :: rat) \<le> of_int d" by (simp only: of_int_le_iff)
  then have low: "of_int N - 1 + 1 / 86400000000 \<le> q" by (simp add: q_def field_simps)
  have a: "of_int \<lfloor>q * P + 1 / 2\<rfloor> \<le> of_int N * P"
  proof -
    have "\<lfloor>q * P + 1 / 2\<rfloor> \<le> \<lfloor>of_int N * P + 1 / 2\<rfloor>"
      using up Ppos by (intro floor_mono) (simp add: mult_right_mono)
    also have "of_int N * P + 1 / 2 = of_int (N * 10 ^ r) + 1 / 2" by (simp add: P_def)
    also have "\<lfloor>(of_int (N * 10 ^ r) :: rat) + 1 / 2\<rfloor> = N * 10 ^ r" by (rule floor_unique) simp_all
    finally have "\<lfloor>q * P + 1 / 2\<rfloor> \<le> N * 10 ^ r" .
    then have "(of_int \<lfloor>q * P + 1 / 2\<rfloor> :: rat) \<le> of_int (N * 10 ^ r)" by (simp only: of_int_le_iff)
    then show ?thesis by (simp add: P_def)
  qed
  have b: "(of_int N - 1) * P < of_int \<lfloor>q * P + 1 / 2\<rfloor>"
  proof -
    have "P / 86400000000 \<ge> 1" using P11 by simp
    then have "(of_int N - 1) * P + 1 \<le> (of_int N - 1 + 1 / 86400000000) * P" by (simp add: algebra_simps)
    also have "\<dots> \<le> q * P" using low Ppos by (simp add: mult_right_mono)
    finally have "(of_int N - 1) * P + 1 / 2 < q * P" by simp
    then have "(of_int N - 1) * P < q * P + 1 / 2 - 1" by simp
    also have "\<dots> < of_int \<lfloor>q * P + 1 / 2\<rfloor>" by linarith
    finally show ?thesis .
  qed
  have nd: "numeric_div (epoch_from_interval d) 86400 r = of_int \<lfloor>q * P + 1 / 2\<rfloor> / P"
    by (simp only: numeric_div_def quot P_def [symmetric] rnd)
  have "\<lceil>of_int \<lfloor>q * P + 1 / 2\<rfloor> / P\<rceil> = N"
  proof (rule ceiling_unique)
    from b Ppos show "of_int N - 1 < of_int \<lfloor>q * P + 1 / 2\<rfloor> / P" by (simp add: pos_less_divide_eq)
    from a Ppos show "of_int \<lfloor>q * P + 1 / 2\<rfloor> / P \<le> of_int N" by (simp add: pos_divide_le_eq)
  qed
  then show ?thesis by (simp only: nd N_def q_def)
qed

lemma days_late_exact:
  assumes "due_at < return_at" and "return_at - due_at < 9000000000000000000"
  shows "days_late due_at return_at = \<lceil>(of_int (return_at - due_at) :: rat) / 86400000000\<rceil>"
proof -
  from assms have pos: "0 < return_at - due_at" by simp
  from div_scale_epoch [OF pos assms(2)]
  have "11 \<le> select_div_scale (numeric_weight (epoch_from_interval (return_at - due_at)))
                 (numeric_first_digit (epoch_from_interval (return_at - due_at))) 6 1 8 1"
    by simp
  from numeric_div_ceiling [OF pos this] show ?thesis by (simp add: days_late_def Let_def)
qed

lemma days_late_23h: "days_late due_at (due_at + 23 * usec_per_hour) = 1"
proof -
  have "days_late due_at (due_at + 23 * usec_per_hour)
      = \<lceil>(of_int (due_at + 23 * usec_per_hour - due_at) :: rat) / 86400000000\<rceil>"
    by (rule days_late_exact) (simp_all add: usec_per_hour_def)
  also have "\<dots> = 1" unfolding usec_per_hour_def by (rule ceiling_unique) simp_all
  finally show ?thesis .
qed

lemma days_late_48h: "days_late due_at (due_at + 48 * usec_per_hour) = 2"
proof -
  have "days_late due_at (due_at + 48 * usec_per_hour)
      = \<lceil>(of_int (due_at + 48 * usec_per_hour - due_at) :: rat) / 86400000000\<rceil>"
    by (rule days_late_exact) (simp_all add: usec_per_hour_def)
  also have "\<dots> = 2" unfolding usec_per_hour_def by (rule ceiling_unique) simp_all
  finally show ?thesis .
qed

text \<open>
  Below \<open>9 \<times> 10\<^sup>1\<^sup>2\<close> seconds of lateness the function computes what its formula says:
  for every due instant, return instant and settings table, the penalty is 0 when the
  return is not after the due instant, and otherwise the number of started days of
  lateness times the rate; the rate is the value of the row \<^verbatim>\<open>penalty_per_day_mad\<close> of the
  settings table, and 10 when the row is absent or its value null; and the amount is
  always a non-negative whole multiple of the rate.
\<close>

lemma compute_penalty_amount_cases:
  "(return_at \<le> due_at \<longrightarrow> fn_compute_penalty_amount s due_at return_at = 0)
   \<and> (due_at < return_at \<and> return_at - due_at < 9000000000000000000 \<longrightarrow>
        fn_compute_penalty_amount s due_at return_at =
          of_int \<lceil>(of_int (return_at - due_at) :: rat) / 86400000000\<rceil> * per_day_rate s)
   \<and> per_day_rate s =
       (case map_of (celms_settings s) ''penalty_per_day_mad'' of
          None \<Rightarrow> 10 | Some None \<Rightarrow> 10 | Some (Some v) \<Rightarrow> v)
   \<and> fn_compute_penalty_amount s due_at due_at = 0
   \<and> fn_compute_penalty_amount s due_at (due_at + 23 * usec_per_hour) = 1 * per_day_rate s
   \<and> fn_compute_penalty_amount s due_at (due_at + 48 * usec_per_hour) = 2 * per_day_rate s
   \<and> fn_compute_penalty_amount s due_at (due_at - 1 * usec_per_hour) = 0
   \<and> (\<exists>k. 0 \<le> k \<and> fn_compute_penalty_amount s due_at return_at = of_int k * per_day_rate s)"
proof -
  have early: "return_at \<le> due_at \<longrightarrow> fn_compute_penalty_amount s due_at return_at = 0"
    by (simp add: fn_compute_penalty_amount_def)
  have late: "due_at < return_at \<and> return_at - due_at < 9000000000000000000 \<longrightarrow>
        fn_compute_penalty_amount s due_at return_at =
          of_int \<lceil>(of_int (return_at - due_at) :: rat) / 86400000000\<rceil> * per_day_rate s"
  proof
    assume h: "due_at < return_at \<and> return_at - due_at < 9000000000000000000"
    then have e: "days_late due_at return_at = \<lceil>(of_int (return_at - due_at) :: rat) / 86400000000\<rceil>"
      by (intro days_late_exact) simp_all
    from h have "(0::rat) < of_int (return_at - due_at) / 86400000000" by simp
    then have "0 < \<lceil>(of_int (return_at - due_at) :: rat) / 86400000000\<rceil>" by (simp only: zero_less_ceiling)
    with e have "max 0 (days_late due_at return_at) = \<lceil>(of_int (return_at - due_at) :: rat) / 86400000000\<rceil>"
      by simp
    with h show "fn_compute_penalty_amount s due_at return_at =
          of_int \<lceil>(of_int (return_at - due_at) :: rat) / 86400000000\<rceil> * per_day_rate s"
      by (simp add: fn_compute_penalty_amount_def)
  qed
  have rate: "per_day_rate s =
       (case map_of (celms_settings s) ''penalty_per_day_mad'' of
          None \<Rightarrow> 10 | Some None \<Rightarrow> 10 | Some (Some v) \<Rightarrow> v)"
    by (simp add: per_day_rate_def setting_def split: option.splits)
  have p0: "fn_compute_penalty_amount s due_at due_at = 0"
    by (simp add: fn_compute_penalty_amount_def)
  have p23: "fn_compute_penalty_amount s due_at (due_at + 23 * usec_per_hour) = 1 * per_day_rate s"
    by (simp add: fn_compute_penalty_amount_def days_late_23h) (simp add: usec_per_hour_def)
  have p48: "fn_compute_penalty_amount s due_at (due_at + 48 * usec_per_hour) = 2 * per_day_rate s"
    by (simp add: fn_compute_penalty_amount_def days_late_48h) (simp add: usec_per_hour_def)
  have pm1: "fn_compute_penalty_amount s due_at (due_at - 1 * usec_per_hour) = 0"
    by (simp add: fn_compute_penalty_amount_def usec_per_hour_def)
  have mult: "\<exists>k. 0 \<le> k \<and> fn_compute_penalty_amount s due_at return_at = of_int k * per_day_rate s"
  proof (cases "return_at \<le> due_at")
    case True
    then have "fn_compute_penalty_amount s due_at return_at = of_int 0 * per_day_rate s"
      by (simp add: fn_compute_penalty_amount_def)
    then show ?thesis by (intro exI [of _ 0]) simp
  next
    case False
    then have "fn_compute_penalty_amount s due_at return_at
        = of_int (max 0 (days_late due_at return_at)) * per_day_rate s"
      by (simp add: fn_compute_penalty_amount_def)
    then show ?thesis by (intro exI [of _ "max 0 (days_late due_at return_at)"]) simp
  qed
  from early late rate p0 p23 p48 pm1 mult show ?thesis by (intro conjI)
qed


section \<open>Sequencing and name resolution\<close>

lemma bind_err_simps [simp]:
  "bind_err (Inl e) f = Inl e" "bind_err (Inr x) f = f x"
  by (simp_all add: bind_err_def)

lemma bind_err_Inr_iff: "bind_err m f = Inr y \<longleftrightarrow> (\<exists>x. m = Inr x \<and> f x = Inr y)"
  by (cases m) simp_all

lemma bind_err_isl: "(\<And>x. isl (f x)) \<Longrightarrow> isl (bind_err m f)"
  by (cases m) simp_all

lemma fn_audit_Inr_iff:
  "fn_audit actor ent eid act s = Inr s' \<longleftrightarrow>
     actor \<in> set (users s) \<and>
     s' = s\<lparr>audit_events := audit_events s @
             [\<lparr>a_actor_user_id = actor, a_entity = ent, a_entity_id = eid, a_action = act\<rparr>]\<rparr>"
  by (auto simp: fn_audit_def)

text \<open>The statements in which a variable bears the name of a column or of an alias.\<close>

lemma fn_create_notification_raises:
  "fn_create_notification u ty ref s = Inl (Ambiguous_column ''notif_id'')"
  by (simp add: fn_create_notification_def column_references_def)

lemma update_reservation_decision_raises:
  "update_reservation_decision rid st approver reason s = Inl (Ambiguous_column ''user_id'')"
  by (simp add: update_reservation_decision_def column_references_def decision_variables_def)

lemma insert_loan_raises:
  "insert_loan checkout_variables item u res checkout due s = Inl (Ambiguous_column ''loan_id'')"
  "insert_loan adhoc_variables item u res checkout due s = Inl (Ambiguous_column ''loan_id'')"
  by (simp_all add: insert_loan_def column_references_def checkout_variables_def adhoc_variables_def)

lemma select_loan_join_item_raises:
  "select_loan_join_item s lid = Inl (Record_not_assigned ''l'')"
  by (simp add: select_loan_join_item_def qualified_references_def)

text \<open>
  No call of the request, approve, deny and return functions returns: each raises one of
  its own exceptions or reaches such a statement.
\<close>

lemma fn_request_reservation_raises: "isl (fn_request_reservation actor item st en s)"
proof (cases "st \<ge> en")
  case True
  then show ?thesis by (simp add: fn_request_reservation_def)
next
  case False
  have "isl (bind_err (insert_reservation item actor st en s) (\<lambda>(rid, s1).
           bind_err (fn_audit actor ''reservation'' rid ''request'' s1) (\<lambda>s2.
           bind_err (fn_create_notification actor N_reservation rid s2) (\<lambda>s3.
           Inr (rid, s3)))))"
  proof (rule bind_err_isl)
    fix x :: "int \<times> db"
    obtain rid s1 where x: "x = (rid, s1)" by (cases x)
    have "isl (bind_err (fn_audit actor ''reservation'' rid ''request'' s1) (\<lambda>s2.
           bind_err (fn_create_notification actor N_reservation rid s2) (\<lambda>s3.
           Inr (rid, s3))))"
      by (rule bind_err_isl) (simp add: fn_create_notification_raises)
    then show "isl (case x of (rid, s1) \<Rightarrow>
           bind_err (fn_audit actor ''reservation'' rid ''request'' s1) (\<lambda>s2.
           bind_err (fn_create_notification actor N_reservation rid s2) (\<lambda>s3.
           Inr (rid, s3))))"
      by (simp add: x)
  qed
  with False show ?thesis by (simp add: fn_request_reservation_def)
qed

lemma fn_approve_reservation_raises: "isl (fn_approve_reservation approver rid reason s)"
  by (simp add: fn_approve_reservation_def update_reservation_decision_raises split: option.splits)

lemma fn_deny_reservation_raises: "isl (fn_deny_reservation approver rid reason s)"
  by (simp add: fn_deny_reservation_def update_reservation_decision_raises split: option.splits)

lemma fn_return_loan_raises:
  "fn_return_loan actor lid damaged condition now s = Inl (Record_not_assigned ''l'')"
  by (simp add: fn_return_loan_def select_loan_join_item_raises)

text \<open>
  What is raised once the tests of a function have passed; no call of a checkout function
  returns either.
\<close>

lemma fn_deny_reservation_result:
  "fn_deny_reservation approver rid reason s =
     (case select_reservation_join_item s rid of
        None \<Rightarrow> Inl Reservation_not_found
      | Some r \<Rightarrow> Inl (Ambiguous_column ''user_id''))"
  by (simp add: fn_deny_reservation_def update_reservation_decision_raises split: option.splits)

lemma fn_approve_reservation_result:
  "fn_approve_reservation approver rid reason s =
     (case select_reservation_join_item s rid of
        None \<Rightarrow> Inl Reservation_not_found
      | Some r \<Rightarrow>
          if r_status r \<noteq> Pending \<and> r_status r \<noteq> Approved \<and> r_status r \<noteq> Confirmed
            then Inl (Cannot_be_approved_from_status (r_status r))
          else if list_ex (approve_conflict r) (reservations s)
            then Inl Overlap_with_existing_reservation
          else Inl (Ambiguous_column ''user_id''))"
  by (simp add: fn_approve_reservation_def update_reservation_decision_raises split: option.splits)

lemma fn_checkout_from_reservation_result:
  "fn_checkout_from_reservation actor rid now s =
     (case select_reservation s rid of
        None \<Rightarrow> Inl Reservation_not_found
      | Some r \<Rightarrow>
          if r_status r \<noteq> Approved \<and> r_status r \<noteq> Confirmed
            then Inl Reservation_not_approved_confirmed
          else if has_open_loan s (r_item_id r) then Inl Item_is_currently_checked_out
          else if \<not> item_available s (r_item_id r) then Inl Item_not_available
          else (case default_loan_days s of
                  Inl e \<Rightarrow> Inl e
                | Inr days \<Rightarrow> Inl (Ambiguous_column ''loan_id'')))"
  by (simp add: fn_checkout_from_reservation_def insert_loan_raises bind_err_def
      split: option.splits sum.splits)

lemma fn_checkout_adhoc_result:
  "fn_checkout_adhoc actor u item now s =
     (if has_open_loan s item then Inl Item_is_currently_checked_out
      else if \<not> item_available s item then Inl Item_not_available
      else (case default_loan_days s of
              Inl e \<Rightarrow> Inl e
            | Inr days \<Rightarrow> Inl (Ambiguous_column ''loan_id'')))"
  by (simp add: fn_checkout_adhoc_def insert_loan_raises bind_err_def split: sum.splits)

lemma fn_checkout_from_reservation_raises: "isl (fn_checkout_from_reservation actor rid now s)"
  by (simp add: fn_checkout_from_reservation_result split: option.splits sum.splits)

lemma fn_checkout_adhoc_raises: "isl (fn_checkout_adhoc actor u item now s)"
  by (simp add: fn_checkout_adhoc_result split: sum.splits)

section \<open>Effects on the reservations table\<close>

lemma range_overlaps_finite:
  "range_overlaps a (Some b) c (Some d) \<longleftrightarrow> a < b \<and> c < d \<and> a < d \<and> c < b"
  by (auto simp: range_overlaps_def below_upper_def)

lemma disjoint_periods_iff:
  "disjoint_periods x y \<longleftrightarrow>
     \<not> range_overlaps (r_lower x) (Some (r_upper x)) (r_lower y) (Some (r_upper y))"
proof -
  have "({a ..< b} \<inter> {c ..< d} = {}) \<longleftrightarrow> \<not> (a < b \<and> c < d \<and> a < d \<and> c < b)" for a b c d :: int
  proof
    assume e: "{a ..< b} \<inter> {c ..< d} = {}"
    show "\<not> (a < b \<and> c < d \<and> a < d \<and> c < b)"
    proof
      assume h: "a < b \<and> c < d \<and> a < d \<and> c < b"
      then have "max a c \<in> {a ..< b} \<inter> {c ..< d}" by auto
      with e show False by blast
    qed
  next
    assume "\<not> (a < b \<and> c < d \<and> a < d \<and> c < b)"
    then show "{a ..< b} \<inter> {c ..< d} = {}" by auto
  qed
  then show ?thesis by (simp add: disjoint_periods_def range_overlaps_finite)
qed

lemma disjoint_periods_sym: "disjoint_periods x y \<Longrightarrow> disjoint_periods y x"
  by (auto simp: disjoint_periods_def)

lemma cancel_reservations:
  assumes "fn_cancel_reservation actor rid now s = Inr s'"
  shows "reservations s' = map (\<lambda>x. if r_reservation_id x = rid then x\<lparr>r_status := Cancelled\<rparr> else x)
           (reservations s)"
  using assms
  by (auto simp: fn_cancel_reservation_def set_reservation_status_def
      fn_audit_Inr_iff split: if_splits option.splits)

lemma no_stale_after_update:
  "filter (\<lambda>r. stale now r \<and> Q r)
     (map (\<lambda>r. if stale now r then r\<lparr>r_status := Expired\<rparr> else r) rs) = []"
  by (induction rs) (auto simp: stale_def)

lemma expire_old_reservations_result:
  "fn_expire_old_reservations now s =
     Inr (int (length (filter (stale now) (reservations s))),
          s\<lparr>reservations := map (\<lambda>r. if stale now r then r\<lparr>r_status := Expired\<rparr> else r)
                               (reservations s)\<rparr>)"
  by (simp add: fn_expire_old_reservations_def Let_def no_stale_after_update)

lemma expire_reservations:
  assumes "fn_expire_old_reservations now s = Inr (n, s')"
  shows "reservations s' = map (\<lambda>r. if stale now r then r\<lparr>r_status := Expired\<rparr> else r) (reservations s)"
  using assms by (auto simp: expire_old_reservations_result)

lemma item_update_reservations:
  assumes "fn_item_update actor item st s = Inr s'"
  shows "reservations s' = reservations s"
  using assms
  by (auto simp: fn_item_update_def fn_audit_Inr_iff update_item_status_def)

text \<open>The invariant on lists of rows.\<close>

lemma pkey_map:
  assumes "\<And>x. r_reservation_id (f x) = r_reservation_id x"
  shows "map r_reservation_id (map f rs) = map r_reservation_id rs"
  using assms by (induction rs) auto

lemma ndb_map:
  assumes inv: "\<forall>x \<in> set rs. \<forall>y \<in> set rs.
        r_reservation_id x \<noteq> r_reservation_id y \<and> r_item_id x = r_item_id y \<and> active x \<and> active y
        \<longrightarrow> disjoint_periods x y"
    and keep: "\<And>x. r_reservation_id (f x) = r_reservation_id x \<and> r_item_id (f x) = r_item_id x \<and>
                 r_lower (f x) = r_lower x \<and> r_upper (f x) = r_upper x"
    and act: "\<And>x y. x \<in> set rs \<Longrightarrow> y \<in> set rs \<Longrightarrow> active (f x) \<Longrightarrow> active (f y) \<Longrightarrow>
                 r_reservation_id x \<noteq> r_reservation_id y \<Longrightarrow> r_item_id x = r_item_id y \<Longrightarrow>
                 (active x \<and> active y) \<or> disjoint_periods x y"
  shows "\<forall>x \<in> set (map f rs). \<forall>y \<in> set (map f rs).
        r_reservation_id x \<noteq> r_reservation_id y \<and> r_item_id x = r_item_id y \<and> active x \<and> active y
        \<longrightarrow> disjoint_periods x y"
proof (intro ballI impI)
  fix x' y' assume x': "x' \<in> set (map f rs)" and y': "y' \<in> set (map f rs)"
    and h: "r_reservation_id x' \<noteq> r_reservation_id y' \<and> r_item_id x' = r_item_id y' \<and> active x' \<and> active y'"
  from x' obtain x where x: "x \<in> set rs" "x' = f x" by auto
  from y' obtain y where y: "y \<in> set rs" "y' = f y" by auto
  have dp: "disjoint_periods x' y' = disjoint_periods x y"
    by (simp add: disjoint_periods_def x y keep)
  from h have ne: "r_reservation_id x \<noteq> r_reservation_id y" and it: "r_item_id x = r_item_id y"
    by (simp_all add: x y keep)
  from act [OF x(1) y(1) _ _ ne it] h have "(active x \<and> active y) \<or> disjoint_periods x y"
    by (simp add: x y)
  with inv x(1) y(1) ne it have "disjoint_periods x y" by blast
  with dp show "disjoint_periods x' y'" by simp
qed

lemma inv_frame:
  "reservations s' = reservations s \<Longrightarrow> reservations_pkey s \<and> no_double_booking s \<Longrightarrow>
     reservations_pkey s' \<and> no_double_booking s'"
  by (simp add: reservations_pkey_def no_double_booking_def)

lemma inv_map:
  assumes eq: "reservations s' = map f (reservations s)"
    and inv: "reservations_pkey s \<and> no_double_booking s"
    and keep: "\<And>x. r_reservation_id (f x) = r_reservation_id x \<and> r_item_id (f x) = r_item_id x \<and>
                 r_lower (f x) = r_lower x \<and> r_upper (f x) = r_upper x"
    and act: "\<And>x y. x \<in> set (reservations s) \<Longrightarrow> y \<in> set (reservations s) \<Longrightarrow>
                 active (f x) \<Longrightarrow> active (f y) \<Longrightarrow>
                 r_reservation_id x \<noteq> r_reservation_id y \<Longrightarrow> r_item_id x = r_item_id y \<Longrightarrow>
                 (active x \<and> active y) \<or> disjoint_periods x y"
  shows "reservations_pkey s' \<and> no_double_booking s'"
proof
  have "map r_reservation_id (map f (reservations s)) = map r_reservation_id (reservations s)"
    by (rule pkey_map) (simp add: keep)
  moreover from inv have "distinct (map r_reservation_id (reservations s))"
    by (simp add: reservations_pkey_def)
  ultimately show "reservations_pkey s'" unfolding reservations_pkey_def eq by (simp only:)
  from inv have "\<forall>x \<in> set (reservations s). \<forall>y \<in> set (reservations s).
        r_reservation_id x \<noteq> r_reservation_id y \<and> r_item_id x = r_item_id y \<and> active x \<and> active y
        \<longrightarrow> disjoint_periods x y"
    by (simp add: no_double_booking_def)
  from ndb_map [OF this keep act] show "no_double_booking s'"
    unfolding no_double_booking_def eq by blast
qed

lemma deactivate_invariant:
  assumes eq: "reservations s' = map (\<lambda>x. if P x then g x else x) (reservations s)"
    and inv: "reservations_pkey s \<and> no_double_booking s"
    and keep: "\<And>x. r_reservation_id (g x) = r_reservation_id x \<and> r_item_id (g x) = r_item_id x \<and>
                 r_lower (g x) = r_lower x \<and> r_upper (g x) = r_upper x \<and> \<not> active (g x)"
  shows "reservations_pkey s' \<and> no_double_booking s'"
proof (rule inv_map [OF eq inv])
  show "r_reservation_id (if P x then g x else x) = r_reservation_id x \<and>
        r_item_id (if P x then g x else x) = r_item_id x \<and>
        r_lower (if P x then g x else x) = r_lower x \<and>
        r_upper (if P x then g x else x) = r_upper x" for x
    using keep by simp
next
  fix x y
  assume "active (if P x then g x else x)" "active (if P y then g y else y)"
  then show "(active x \<and> active y) \<or> disjoint_periods x y"
    using keep by (auto split: if_splits)
qed

lemma step_invariant:
  assumes inv: "reservations_pkey s \<and> no_double_booking s"
  shows "reservations_pkey (apply_op now op s) \<and> no_double_booking (apply_op now op s)"
proof (cases "run_operation now op s")
  case (Inl e)
  with inv show ?thesis by (simp add: apply_op_def)
next
  case (Inr s')
  then have ap: "apply_op now op s = s'" by (simp add: apply_op_def)
  have "reservations_pkey s' \<and> no_double_booking s'"
  proof (cases op)
    case (Request_reservation actor item st en)
    with Inr fn_request_reservation_raises [of actor item st en s] show ?thesis
      by (cases "fn_request_reservation actor item st en s") simp_all
  next
    case (Approve_reservation approver rid reason)
    with Inr fn_approve_reservation_raises [of approver rid reason s] show ?thesis by simp
  next
    case (Deny_reservation approver rid reason)
    with Inr fn_deny_reservation_raises [of approver rid reason s] show ?thesis by simp
  next
    case (Cancel_reservation actor rid)
    with Inr have "fn_cancel_reservation actor rid now s = Inr s'" by simp
    from cancel_reservations [OF this] inv show ?thesis
      by (rule deactivate_invariant) (simp add: active_def)
  next
    case Expire_old_reservations
    with Inr obtain n where "fn_expire_old_reservations now s = Inr (n, s')"
      by (cases "fn_expire_old_reservations now s") auto
    from expire_reservations [OF this] inv show ?thesis
      by (rule deactivate_invariant) (simp add: active_def)
  next
    case (Checkout_from_reservation actor rid)
    with Inr fn_checkout_from_reservation_raises [of actor rid now s] show ?thesis
      by (cases "fn_checkout_from_reservation actor rid now s") simp_all
  next
    case (Checkout_adhoc actor u item)
    with Inr fn_checkout_adhoc_raises [of actor u item now s] show ?thesis
      by (cases "fn_checkout_adhoc actor u item now s") simp_all
  next
    case (Return_loan actor lid damaged condition)
    with Inr show ?thesis by (simp add: fn_return_loan_raises)
  next
    case (Item_update actor item st)
    with Inr have "fn_item_update actor item st s = Inr s'" by simp
    from item_update_reservations [OF this] inv show ?thesis by (rule inv_frame)
  qed
  with ap show ?thesis by simp
qed

lemma run_all_invariant:
  "reservations_pkey s \<and> no_double_booking s \<Longrightarrow>
     reservations_pkey (run_all ops s) \<and> no_double_booking (run_all ops s)"
proof (induction ops arbitrary: s)
  case Nil
  then show ?case by simp
next
  case (Cons a ops)
  obtain now op where a: "a = (now, op)" by (cases a)
  from Cons.prems have "reservations_pkey (apply_op now op s) \<and> no_double_booking (apply_op now op s)"
    by (rule step_invariant)
  from Cons.IH [OF this] show ?case by (simp add: a)
qed

lemma approve_conflict_fails:
  assumes "select_reservation_join_item s rid = Some r"
    and "r_status r = Pending \<or> r_status r = Approved \<or> r_status r = Confirmed"
    and "list_ex (approve_conflict r) (reservations s)"
  shows "fn_approve_reservation approver rid reason s = Inl Overlap_with_existing_reservation"
  using assms by (auto simp: fn_approve_reservation_def)

text \<open>
  Claim C1.  In every state whose reservation keys are unique and in which any two
  distinct approved or confirmed reservations of one asset have disjoint periods, the
  same holds after any sequence of operations, each run as a transaction at any time;
  and approving a pending, approved or confirmed reservation while another approved or
  confirmed reservation of the same asset has a period that is not disjoint from its
  period raises the overlap error and leaves the database as it was.
\<close>

theorem no_double_booking_preserved:
  assumes "reservations_pkey s" and "no_double_booking s"
  shows "reservations_pkey (run_all ops s) \<and> no_double_booking (run_all ops s)
       \<and> (\<forall>approver rid reason r x.
            select_reservation_join_item s rid = Some r
            \<and> (r_status r = Pending \<or> r_status r = Approved \<or> r_status r = Confirmed)
            \<and> x \<in> set (reservations s) \<and> r_reservation_id x \<noteq> r_reservation_id r
            \<and> r_item_id x = r_item_id r \<and> active x \<and> \<not> disjoint_periods x r
            \<longrightarrow> fn_approve_reservation approver rid reason s = Inl Overlap_with_existing_reservation
                \<and> apply_op now (Approve_reservation approver rid reason) s = s)"
proof -
  from assms have inv: "reservations_pkey s \<and> no_double_booking s" by simp
  have fails: "fn_approve_reservation approver rid reason s = Inl Overlap_with_existing_reservation
                \<and> apply_op now (Approve_reservation approver rid reason) s = s"
    if sel: "select_reservation_join_item s rid = Some r"
      and st: "r_status r = Pending \<or> r_status r = Approved \<or> r_status r = Confirmed"
      and x: "x \<in> set (reservations s)" "r_reservation_id x \<noteq> r_reservation_id r"
        "r_item_id x = r_item_id r" "active x" "\<not> disjoint_periods x r"
    for approver rid reason r x
  proof -
    from x have "approve_conflict r x"
      by (simp add: approve_conflict_def active_def disjoint_periods_iff)
    with x(1) have "list_ex (approve_conflict r) (reservations s)" by (auto simp: list_ex_iff)
    from approve_conflict_fails [OF sel st this] show ?thesis by (simp add: apply_op_def)
  qed
  from run_all_invariant [OF inv] fails show ?thesis by blast
qed

theorem no_double_booking_preserved_witness:
  "reservations_pkey db_two_requests \<and> no_double_booking db_two_requests
   \<and> fn_approve_reservation 9 2 None db_two_requests = Inl Overlap_with_existing_reservation
   \<and> no_double_booking
       (run_all [(0, Approve_reservation 9 2 None), (1, Request_reservation 7 1 20 30)] db_two_requests)"
proof -
  let ?r1 = "\<lparr>r_reservation_id = 1, r_item_id = 1, r_user_id = 7, r_lower = 0, r_upper = 10,
            r_status = Approved, r_decided_by = Some 9, r_decision_reason = None\<rparr>"
  let ?r2 = "\<lparr>r_reservation_id = 2, r_item_id = 1, r_user_id = 8, r_lower = 5, r_upper = 15,
            r_status = Pending, r_decided_by = None, r_decision_reason = None\<rparr>"
  have h1: "reservations_pkey db_two_requests"
    by (simp add: reservations_pkey_def db_two_requests_def db0_def)
  have h2: "no_double_booking db_two_requests"
    by (simp add: no_double_booking_def db_two_requests_def db0_def active_def)
  have pre: "select_reservation_join_item db_two_requests 2 = Some ?r2
      \<and> (r_status ?r2 = Pending \<or> r_status ?r2 = Approved \<or> r_status ?r2 = Confirmed)
      \<and> ?r1 \<in> set (reservations db_two_requests) \<and> r_reservation_id ?r1 \<noteq> r_reservation_id ?r2
      \<and> r_item_id ?r1 = r_item_id ?r2 \<and> active ?r1 \<and> \<not> disjoint_periods ?r1 ?r2"
    by (simp add: select_reservation_join_item_def db_two_requests_def db0_def item_exists_def
        active_def disjoint_periods_iff range_overlaps_def below_upper_def)
  note inst = no_double_booking_preserved [OF h1 h2,
      of "[(0, Approve_reservation 9 2 None), (1, Request_reservation 7 1 20 30)]" 0]
  from inst have "\<forall>approver rid reason r x.
            select_reservation_join_item db_two_requests rid = Some r
            \<and> (r_status r = Pending \<or> r_status r = Approved \<or> r_status r = Confirmed)
            \<and> x \<in> set (reservations db_two_requests) \<and> r_reservation_id x \<noteq> r_reservation_id r
            \<and> r_item_id x = r_item_id r \<and> active x \<and> \<not> disjoint_periods x r
            \<longrightarrow> fn_approve_reservation approver rid reason db_two_requests
                  = Inl Overlap_with_existing_reservation
                \<and> apply_op 0 (Approve_reservation approver rid reason) db_two_requests = db_two_requests"
    by (elim conjE)
  from this [rule_format, OF pre]
  have "fn_approve_reservation 9 2 None db_two_requests = Inl Overlap_with_existing_reservation"
    by (rule conjunct1)
  with h1 h2 inst show ?thesis by simp
qed

section \<open>Operations that never commit\<close>

lemma apply_op_aborted:
  "apply_op now (Request_reservation actor item st en) s = s"
  "apply_op now (Approve_reservation approver rid reason) s = s"
  "apply_op now (Deny_reservation approver rid reason) s = s"
  "apply_op now (Checkout_from_reservation actor rid) s = s"
  "apply_op now (Checkout_adhoc actor u item) s = s"
  "apply_op now (Return_loan actor lid damaged condition) s = s"
proof -
  show "apply_op now (Request_reservation actor item st en) s = s"
    using fn_request_reservation_raises [of actor item st en s]
    by (cases "fn_request_reservation actor item st en s") (simp_all add: apply_op_def)
  show "apply_op now (Approve_reservation approver rid reason) s = s"
    using fn_approve_reservation_raises [of approver rid reason s]
    by (cases "fn_approve_reservation approver rid reason s") (simp_all add: apply_op_def)
  show "apply_op now (Deny_reservation approver rid reason) s = s"
    using fn_deny_reservation_raises [of approver rid reason s]
    by (cases "fn_deny_reservation approver rid reason s") (simp_all add: apply_op_def)
  show "apply_op now (Checkout_from_reservation actor rid) s = s"
    using fn_checkout_from_reservation_raises [of actor rid now s]
    by (cases "fn_checkout_from_reservation actor rid now s") (simp_all add: apply_op_def)
  show "apply_op now (Checkout_adhoc actor u item) s = s"
    using fn_checkout_adhoc_raises [of actor u item now s]
    by (cases "fn_checkout_adhoc actor u item now s") (simp_all add: apply_op_def)
  show "apply_op now (Return_loan actor lid damaged condition) s = s"
    by (simp add: apply_op_def fn_return_loan_raises)
qed

section \<open>Requests\<close>

text \<open>
  The \<^verbatim>\<open>INSERT\<close> of a request is subject to \<^verbatim>\<open>reservations_no_overlap\<close>, which covers the
  reservations of the asset in every status: a request whose period overlaps one of them
  raises the exclusion violation.
\<close>

lemma request_excluded:
  assumes "st < en" and "reservations_seq s + 1 \<notin> set (map r_reservation_id (reservations s))"
    and "reservation_excluded s item st en"
  shows "fn_request_reservation actor item st en s = Inl (Exclusion_violation ''reservations_no_overlap'')"
  using assms by (simp add: fn_request_reservation_def insert_reservation_def Let_def)

text \<open>
  A request that passes the constraints of the table inserts its row and its audit row
  and then calls \<^verbatim>\<open>fn_create_notification\<close>, which raises.
\<close>

lemma request_reaches_notification:
  assumes "st < en" and "reservations_seq s + 1 \<notin> set (map r_reservation_id (reservations s))"
    and "\<not> reservation_excluded s item st en" and "item_exists s item" and "actor \<in> set (users s)"
  shows "fn_request_reservation actor item st en s = Inl (Ambiguous_column ''notif_id'')"
  using assms
  by (simp add: fn_request_reservation_def insert_reservation_def Let_def fn_audit_def
      fn_create_notification_raises)

text \<open>
  Claim C2.  On a database with users 7 and 8, the available asset 1 and no reservation,
  the request of user 7 for the period \<open>[0, 10)\<close> raises the ambiguity of \<^verbatim>\<open>notif_id\<close> and
  leaves the database as it was, and so does the following request of user 8 for
  \<open>[5, 15)\<close>: after the two calls the table of reservations is still empty.
\<close>

theorem request_reservation_aborts:
  "fn_request_reservation 7 1 0 10 db0 = Inl (Ambiguous_column ''notif_id'')
   \<and> apply_op 0 (Request_reservation 7 1 0 10) db0 = db0
   \<and> fn_request_reservation 8 1 5 15 db0 = Inl (Ambiguous_column ''notif_id'')
   \<and> reservations
       (run_all [(0, Request_reservation 7 1 0 10), (1, Request_reservation 8 1 5 15)] db0) = []"
proof -
  have fresh: "reservations_seq db0 + 1 \<notin> set (map r_reservation_id (reservations db0))"
    and free: "\<not> reservation_excluded db0 1 lo hi" for lo hi
    by (simp_all add: db0_def reservation_excluded_def)
  have item: "item_exists db0 1" and users: "7 \<in> set (users db0)" "8 \<in> set (users db0)"
    by (simp_all add: db0_def item_exists_def)
  have first: "fn_request_reservation 7 1 0 10 db0 = Inl (Ambiguous_column ''notif_id'')"
    by (rule request_reaches_notification [OF _ fresh free item users(1)]) simp
  have second: "fn_request_reservation 8 1 5 15 db0 = Inl (Ambiguous_column ''notif_id'')"
    by (rule request_reaches_notification [OF _ fresh free item users(2)]) simp
  have none: "reservations db0 = []" by (simp add: db0_def)
  from first second none show ?thesis by (simp add: apply_op_def)
qed

section \<open>Expiry\<close>

lemma expire_old_reservations_twice:
  "fn_expire_old_reservations now s = Inr (n, s') \<Longrightarrow>
     fn_expire_old_reservations now s' = Inr (0, s')"
proof -
  assume "fn_expire_old_reservations now s = Inr (n, s')"
  then have s': "s' = s\<lparr>reservations := map (\<lambda>r. if stale now r then r\<lparr>r_status := Expired\<rparr> else r)
                               (reservations s)\<rparr>"
    by (simp add: expire_old_reservations_result)
  have none: "filter (stale now) (reservations s') = []"
    using no_stale_after_update [of now "\<lambda>r. True" "reservations s"] by (simp add: s')
  then have "map (\<lambda>r. if stale now r then r\<lparr>r_status := Expired\<rparr> else r) (reservations s')
      = reservations s'"
    by (simp add: filter_empty_conv map_idI)
  with none show ?thesis by (simp add: expire_old_reservations_result)
qed

text \<open>
  Claim C4.  The status update, the count and the effect of a repeated call are as the
  claim says (lemmas \<open>expire_old_reservations_result\<close> and \<open>expire_old_reservations_twice\<close>),
  but the cursor of the notification loop is opened after the update and selects
  reservations that are still pending or approved, so it is empty: no notification is
  written.  At time 100, on a database whose only reservation is pending with period
  \<open>[0, 10)\<close>, the call returns 1, the reservation is expired and the notification table
  is still empty.
\<close>

theorem expire_sends_no_notification:
  "map_sum id (\<lambda>(n, s'). (n, map r_status (reservations s'), notifications s'))
     (fn_expire_old_reservations 100 db_stale) = Inr (1, [Expired], [])"
  by (simp add: expire_old_reservations_result) (simp add: db_stale_def db0_def stale_def)

section \<open>Return of a loan\<close>

text \<open>
  Claim C7.  Loan 1 of asset 1 is open and the asset is checked out.  The return of the
  loan by user 9 at time 50 raises at the first statement of \<^verbatim>\<open>fn_return_loan\<close>: the loan
  stays open and the asset checked out, the database being as it was.  A return of the
  same loan once it has a return instant raises the same error, not the already-returned
  exception.
\<close>

theorem return_loan_aborts:
  "map l_return_at (loans db_open_loan) = [None]
   \<and> map i_status (equipment_items db_open_loan) = [Checked_out]
   \<and> fn_return_loan 9 1 None None 50 db_open_loan = Inl (Record_not_assigned ''l'')
   \<and> apply_op 50 (Return_loan 9 1 None None) db_open_loan = db_open_loan
   \<and> map l_return_at (loans db_returned_loan) = [Some 50]
   \<and> fn_return_loan 9 1 None None 60 db_returned_loan = Inl (Record_not_assigned ''l'')"
  by (simp add: fn_return_loan_def select_loan_join_item_def qualified_references_def apply_op_def)
    (simp add: db_open_loan_def db_returned_loan_def db0_def)

section \<open>Damaged return\<close>

text \<open>
  Claim C3.  The return of the open loan 1 as damaged, by user 9 at time 50, raises at the
  first statement of \<^verbatim>\<open>fn_return_loan\<close>, before the \<^verbatim>\<open>UPDATE\<close> that would fire
  \<^verbatim>\<open>trg_loans_after_update\<close> and before the explicit \<^verbatim>\<open>INSERT\<close> of a ticket: no
  maintenance ticket exists afterwards.
\<close>

theorem damaged_return_opens_no_ticket:
  "maintenance_tickets db_open_loan = []
   \<and> fn_return_loan 9 1 (Some True) None 50 db_open_loan = Inl (Record_not_assigned ''l'')
   \<and> maintenance_tickets (apply_op 50 (Return_loan 9 1 (Some True) None) db_open_loan) = []"
  by (simp add: fn_return_loan_def select_loan_join_item_def qualified_references_def apply_op_def)
    (simp add: db_open_loan_def db0_def)

text \<open>
  The two statements that follow the \<^verbatim>\<open>SELECT\<close>, run on their own on the same loan: the
  \<^verbatim>\<open>UPDATE\<close> fires the trigger, which inserts a ticket opened by the borrower, and the
  explicit \<^verbatim>\<open>INSERT\<close> adds a second one opened by the actor.  The table has no constraint
  on which \<^verbatim>\<open>ON CONFLICT DO NOTHING\<close> could act.
\<close>

lemma damaged_update_then_insert:
  "map_sum id (\<lambda>s'. map (\<lambda>t. (t_ticket_id t, t_item_id t, t_loan_id t, t_opened_by t))
                      (maintenance_tickets s'))
     (bind_err (update_loan_returned 1 50 True None db_open_loan)
        (insert_ticket 1 1 9 (or_damaged_on_return None)))
   = Inr [(1, 1, Some 1, 8), (2, 1, Some 1, 9)]"
  by (simp add: db_open_loan_def db0_def update_loan_returned_def Let_def loan_excluded_def
      returned_def trg_loans_after_update_def insert_ticket_on_conflict_do_nothing_def
      ticket_fk_error_def new_ticket_def or_damaged_on_return_def update_item_status_def
      insert_ticket_def item_exists_def)

section \<open>Deny\<close>

text \<open>
  Claim C9.  Reservation 2 of the desk is pending.  The handler refuses a deny request
  without a reason, or with an empty one, with the missing-reason error.  With the reason
  \<open>double booked\<close> it calls \<^verbatim>\<open>fn_deny_reservation\<close>, which raises the ambiguity of
  \<^verbatim>\<open>user_id\<close> at its \<^verbatim>\<open>UPDATE\<close>: the reservation is still pending afterwards, with no
  decider and no reason.
\<close>

theorem deny_with_reason_aborts:
  "select_reservation db_booked 2 =
     Some \<lparr>r_reservation_id = 2, r_item_id = 2, r_user_id = 8, r_lower = 5, r_upper = 15,
           r_status = Pending, r_decided_by = None, r_decision_reason = None\<rparr>
   \<and> post_reservation_deny 9 2 None db_booked = Inl Reason_is_required
   \<and> post_reservation_deny 9 2 (Some []) db_booked = Inl Reason_is_required
   \<and> post_reservation_deny 9 2 (Some ''double booked'') db_booked = Inl (Ambiguous_column ''user_id'')
   \<and> select_reservation (apply_op 0 (Deny_reservation 9 2 (Some ''double booked'')) db_booked) 2 =
       Some \<lparr>r_reservation_id = 2, r_item_id = 2, r_user_id = 8, r_lower = 5, r_upper = 15,
             r_status = Pending, r_decided_by = None, r_decision_reason = None\<rparr>"
proof -
  have sel: "select_reservation db_booked 2 =
     Some \<lparr>r_reservation_id = 2, r_item_id = 2, r_user_id = 8, r_lower = 5, r_upper = 15,
           r_status = Pending, r_decided_by = None, r_decision_reason = None\<rparr>"
    by (simp add: select_reservation_def db_booked_def db0_def)
  have "select_reservation_join_item db_booked 2 =
     Some \<lparr>r_reservation_id = 2, r_item_id = 2, r_user_id = 8, r_lower = 5, r_upper = 15,
           r_status = Pending, r_decided_by = None, r_decision_reason = None\<rparr>"
    by (simp add: select_reservation_join_item_def item_exists_def db_booked_def db0_def)
  then have raised: "fn_deny_reservation 9 2 reason db_booked = Inl (Ambiguous_column ''user_id'')"
    for reason
    by (simp add: fn_deny_reservation_def update_reservation_decision_def column_references_def
        decision_variables_def)
  from sel raised show ?thesis by (simp add: post_reservation_deny_def apply_op_def)
qed

text \<open>
  The test of the reason is the handler's: the stored procedure has none, and raises the
  same error whatever the reason, null included, for every reservation it finds.
\<close>

lemma fn_deny_reservation_any_reason:
  "select_reservation_join_item s rid = Some r \<Longrightarrow>
     fn_deny_reservation approver rid reason s = Inl (Ambiguous_column ''user_id'')"
  by (simp add: fn_deny_reservation_result)

section \<open>Terminal statuses\<close>

lemma find_map_id:
  assumes "\<And>x. P (f x) = P x"
  shows "find P (map f xs) = map_option f (find P xs)"
  using assms by (induction xs) auto

lemma status_after_map:
  assumes sel: "select_reservation s rid = Some r"
    and eq: "reservations s' = map f (reservations s)"
    and ids: "\<And>x. r_reservation_id (f x) = r_reservation_id x"
  shows "reservation_status_of s' rid = Some (r_status (f r))"
proof -
  have "find (\<lambda>x. r_reservation_id x = rid) (map f (reservations s))
      = map_option f (find (\<lambda>x. r_reservation_id x = rid) (reservations s))"
    by (rule find_map_id) (simp add: ids)
  with sel show ?thesis
    by (simp add: reservation_status_of_def select_reservation_def eq)
qed

lemma status_after_frame:
  "select_reservation s rid = Some r \<Longrightarrow> reservations s' = reservations s \<Longrightarrow>
     reservation_status_of s' rid = Some (r_status r)"
  by (simp add: reservation_status_of_def select_reservation_def)

text \<open>
  Claim C8 (as amended).  A reservation whose status is confirmed, denied, cancelled or
  expired keeps that status under every operation run as a transaction, except the
  cancellation of that reservation by its owner before its start instant, which tests no
  status and leaves the reservation cancelled.
\<close>

theorem terminal_status_kept:
  assumes sel: "select_reservation s rid = Some r"
    and fin: "r_status r = Confirmed \<or> r_status r = Denied \<or> r_status r = Cancelled \<or> r_status r = Expired"
  shows "reservation_status_of (apply_op now op s) rid =
           (if op = Cancel_reservation (r_user_id r) rid \<and> now < r_lower r \<and> r_user_id r \<in> set (users s)
            then Some Cancelled else Some (r_status r))"
proof -
  from sel have st: "reservation_status_of s rid = Some (r_status r)"
    by (simp add: reservation_status_of_def)
  from sel have rid: "r_reservation_id r = rid"
    by (auto simp: select_reservation_def find_Some_iff)
  show ?thesis
  proof (cases op)
    case (Request_reservation actor item st' en)
    with st show ?thesis by (simp add: apply_op_aborted)
  next
    case (Approve_reservation approver rid' reason)
    with st show ?thesis by (simp add: apply_op_aborted)
  next
    case (Deny_reservation approver rid' reason)
    with st show ?thesis by (simp add: apply_op_aborted)
  next
    case (Checkout_from_reservation actor rid')
    with st show ?thesis by (simp add: apply_op_aborted)
  next
    case (Checkout_adhoc actor u item)
    with st show ?thesis by (simp add: apply_op_aborted)
  next
    case (Return_loan actor lid damaged condition)
    with st show ?thesis by (simp add: apply_op_aborted)
  next
    case (Item_update actor item st')
    show ?thesis
    proof (cases "fn_item_update actor item st' s")
      case (Inl e)
      with Item_update st show ?thesis by (simp add: apply_op_def)
    next
      case (Inr s')
      from status_after_frame [OF sel item_update_reservations [OF Inr]] Inr Item_update
      show ?thesis by (simp add: apply_op_def)
    qed
  next
    case Expire_old_reservations
    let ?f = "\<lambda>x. if stale now x then x\<lparr>r_status := Expired\<rparr> else x"
    from fin have keep: "?f r = r" by (auto simp: stale_def)
    have "reservation_status_of
            (s\<lparr>reservations := map ?f (reservations s)\<rparr>) rid = Some (r_status (?f r))"
      by (rule status_after_map [OF sel]) simp_all
    with keep Expire_old_reservations show ?thesis
      by (simp add: apply_op_def expire_old_reservations_result)
  next
    case (Cancel_reservation actor rid')
    let ?f = "\<lambda>x. if r_reservation_id x = rid' then x\<lparr>r_status := Cancelled\<rparr> else x"
    show ?thesis
    proof (cases "fn_cancel_reservation actor rid' now s")
      case (Inl e)
      have "\<not> (actor = r_user_id r \<and> rid' = rid \<and> now < r_lower r \<and> r_user_id r \<in> set (users s))"
      proof
        assume "actor = r_user_id r \<and> rid' = rid \<and> now < r_lower r \<and> r_user_id r \<in> set (users s)"
        with sel have "\<not> isl (fn_cancel_reservation actor rid' now s)"
          by (simp add: fn_cancel_reservation_def fn_audit_def set_reservation_status_def)
        with Inl show False by simp
      qed
      with Inl Cancel_reservation st show ?thesis by (auto simp: apply_op_def)
    next
      case (Inr s')
      from cancel_reservations [OF Inr] have eq: "reservations s' = map ?f (reservations s)" .
      have after: "reservation_status_of s' rid = Some (r_status (?f r))"
        by (rule status_after_map [OF sel eq]) simp
      show ?thesis
      proof (cases "rid' = rid")
        case True
        with Inr sel have "actor = r_user_id r \<and> now < r_lower r \<and> actor \<in> set (users s)"
          by (auto simp: fn_cancel_reservation_def fn_audit_Inr_iff set_reservation_status_def
              split: if_splits)
        with True after rid Inr Cancel_reservation show ?thesis by (auto simp: apply_op_def)
      next
        case False
        with after rid Inr Cancel_reservation show ?thesis by (auto simp: apply_op_def)
      qed
    qed
  qed
qed

text \<open>
  The claim as stated fails: the owner of the denied reservation 3 cancels it before its
  start and it is cancelled afterwards, and so is the confirmed reservation 1 when its
  owner cancels it.
\<close>

theorem terminal_status_changed_counterexample:
  "reservation_status_of db_terminal 3 = Some Denied
   \<and> reservation_status_of (apply_op 0 (Cancel_reservation 8 3) db_terminal) 3 = Some Cancelled
   \<and> reservation_status_of db_terminal 1 = Some Confirmed
   \<and> reservation_status_of (apply_op 0 (Cancel_reservation 7 1) db_terminal) 1 = Some Cancelled"
  by code_simp

theorem terminal_status_kept_witness:
  "select_reservation db_terminal 1 =
     Some \<lparr>r_reservation_id = 1, r_item_id = 1, r_user_id = 7, r_lower = 100, r_upper = 200,
           r_status = Confirmed, r_decided_by = Some 9, r_decision_reason = None\<rparr>
   \<and> reservation_status_of (apply_op 500 Expire_old_reservations db_terminal) 1 = Some Confirmed
   \<and> reservation_status_of (apply_op 0 (Approve_reservation 9 1 None) db_terminal) 1 = Some Confirmed
   \<and> reservation_status_of (apply_op 0 (Cancel_reservation 8 1) db_terminal) 1 = Some Confirmed
   \<and> reservation_status_of (apply_op 150 (Cancel_reservation 7 1) db_terminal) 1 = Some Confirmed
   \<and> reservation_status_of (apply_op 0 (Cancel_reservation 7 1) db_terminal) 1 = Some Cancelled"
proof -
  let ?r = "\<lparr>r_reservation_id = 1, r_item_id = 1, r_user_id = 7, r_lower = 100, r_upper = 200,
           r_status = Confirmed, r_decided_by = Some 9, r_decision_reason = None\<rparr>"
  have sel: "select_reservation db_terminal 1 = Some ?r"
    by (simp add: select_reservation_def db_terminal_def db0_def)
  have fin: "r_status ?r = Confirmed \<or> r_status ?r = Denied \<or> r_status ?r = Cancelled
      \<or> r_status ?r = Expired" by simp
  have users: "7 \<in> set (users db_terminal)" by (simp add: db_terminal_def)
  note kept = terminal_status_kept [OF sel fin]
  from kept [of 500 Expire_old_reservations]
  have a: "reservation_status_of (apply_op 500 Expire_old_reservations db_terminal) 1 = Some Confirmed"
    by simp
  from kept [of 0 "Approve_reservation 9 1 None"]
  have b: "reservation_status_of (apply_op 0 (Approve_reservation 9 1 None) db_terminal) 1 = Some Confirmed"
    by simp
  from kept [of 0 "Cancel_reservation 8 1"]
  have c: "reservation_status_of (apply_op 0 (Cancel_reservation 8 1) db_terminal) 1 = Some Confirmed"
    by simp
  from kept [of 150 "Cancel_reservation 7 1"]
  have d: "reservation_status_of (apply_op 150 (Cancel_reservation 7 1) db_terminal) 1 = Some Confirmed"
    by simp
  from kept [of 0 "Cancel_reservation 7 1"] users
  have e: "reservation_status_of (apply_op 0 (Cancel_reservation 7 1) db_terminal) 1 = Some Cancelled"
    by simp
  from sel a b c d e show ?thesis by simp
qed

section \<open>Checkout from a reservation\<close>

text \<open>The tests of the function raise what the specification says.\<close>

lemma checkout_guards:
  assumes "select_reservation s rid = Some r" and "active r"
  shows "has_open_loan s (r_item_id r) \<Longrightarrow>
           fn_checkout_from_reservation actor rid now s = Inl Item_is_currently_checked_out"
    and "\<not> has_open_loan s (r_item_id r) \<Longrightarrow> \<not> item_available s (r_item_id r) \<Longrightarrow>
           fn_checkout_from_reservation actor rid now s = Inl Item_not_available"
  using assms by (auto simp: fn_checkout_from_reservation_result active_def)

text \<open>
  The function does not read the period of the reservation: its outcome is the same
  whatever period the reservation carries.
\<close>

lemma checkout_period_independent:
  "fn_checkout_from_reservation actor rid now (set_period rid lo hi s) =
     fn_checkout_from_reservation actor rid now s"
proof -
  let ?f = "\<lambda>x. if r_reservation_id x = rid then x\<lparr>r_lower := lo, r_upper := hi\<rparr> else x"
  have "find (\<lambda>x. r_reservation_id x = rid) (map ?f (reservations s))
      = map_option ?f (find (\<lambda>x. r_reservation_id x = rid) (reservations s))"
    by (rule find_map_id) simp
  then have sel: "select_reservation (set_period rid lo hi s) rid
      = map_option ?f (select_reservation s rid)"
    by (simp add: select_reservation_def set_period_def)
  have same: "has_open_loan (set_period rid lo hi s) i = has_open_loan s i"
    "item_available (set_period rid lo hi s) i = item_available s i"
    "default_loan_days (set_period rid lo hi s) = default_loan_days s" for i
    by (simp_all add: has_open_loan_def item_available_def default_loan_days_def setting_def
        set_period_def)
  show ?thesis
  proof (cases "select_reservation s rid")
    case None
    with sel show ?thesis by (simp add: fn_checkout_from_reservation_result)
  next
    case (Some r)
    with sel same show ?thesis
      by (simp add: fn_checkout_from_reservation_result split: sum.splits)
  qed
qed

lemma numeric_to_int4_7: "numeric_to_int4 7 = Inr 7"
proof -
  have "\<lfloor>(7::rat) + 1 / 2\<rfloor> = 7" by (rule floor_unique) simp_all
  then show ?thesis by (simp add: numeric_to_int4_def round_half_away_def)
qed

lemma db_booked_first:
  "select_reservation db_booked 1 =
     Some \<lparr>r_reservation_id = 1, r_item_id = 1, r_user_id = 7, r_lower = 0, r_upper = 10,
           r_status = Approved, r_decided_by = Some 9, r_decision_reason = None\<rparr>"
  "\<not> has_open_loan db_booked 1" "item_available db_booked 1"
  "default_loan_days db_booked = Inr 7"
  by (simp_all add: db_booked_def db0_def select_reservation_def has_open_loan_def
      item_available_def default_loan_days_def setting_def numeric_to_int4_7)

text \<open>
  Claim C6.  Reservation 1 of the desk is approved, its asset is available and has no
  open loan.  The checkout by user 9 at time 50 passes the three tests, computes the due
  date and raises the ambiguity of \<^verbatim>\<open>loan_id\<close> at the \<^verbatim>\<open>INSERT\<close>: no loan is created, the
  reservation is still approved and the asset still available, the database being as it
  was.
\<close>

theorem checkout_from_reservation_aborts:
  "reservation_status_of db_booked 1 = Some Approved
   \<and> \<not> has_open_loan db_booked 1 \<and> item_available db_booked 1
   \<and> fn_checkout_from_reservation 9 1 50 db_booked = Inl (Ambiguous_column ''loan_id'')
   \<and> apply_op 50 (Checkout_from_reservation 9 1) db_booked = db_booked
   \<and> loans db_booked = []"
proof -
  have "fn_checkout_from_reservation 9 1 50 db_booked = Inl (Ambiguous_column ''loan_id'')"
    by (simp add: fn_checkout_from_reservation_result db_booked_first)
  moreover have "loans db_booked = []" by (simp add: db_booked_def db0_def)
  ultimately show ?thesis
    by (simp add: db_booked_first reservation_status_of_def apply_op_def)
qed

text \<open>
  Claim C10.  The period of reservation 1 is \<open>[0, 10)\<close>.  Its checkout raises the
  ambiguity of \<^verbatim>\<open>loan_id\<close> before the window (at time \<open>-5\<close>), within it (at time 5) and
  after it (at time 50): at no time is a loan created.
\<close>

theorem checkout_at_any_time_aborts:
  "select_reservation db_booked 1 =
     Some \<lparr>r_reservation_id = 1, r_item_id = 1, r_user_id = 7, r_lower = 0, r_upper = 10,
           r_status = Approved, r_decided_by = Some 9, r_decision_reason = None\<rparr>
   \<and> \<not> has_open_loan db_booked 1 \<and> item_available db_booked 1
   \<and> fn_checkout_from_reservation 9 1 (- 5) db_booked = Inl (Ambiguous_column ''loan_id'')
   \<and> fn_checkout_from_reservation 9 1 5 db_booked = Inl (Ambiguous_column ''loan_id'')
   \<and> fn_checkout_from_reservation 9 1 50 db_booked = Inl (Ambiguous_column ''loan_id'')
   \<and> loans (run_all [(- 5, Checkout_from_reservation 9 1), (5, Checkout_from_reservation 9 1),
                      (50, Checkout_from_reservation 9 1)] db_booked) = []"
proof -
  have "fn_checkout_from_reservation 9 1 now db_booked = Inl (Ambiguous_column ''loan_id'')" for now
    by (simp add: fn_checkout_from_reservation_result db_booked_first)
  moreover have "loans db_booked = []" by (simp add: db_booked_def db0_def)
  ultimately show ?thesis by (simp add: db_booked_first apply_op_def)
qed

end
